theory Spec2Isabelle
  imports Main "HOL-Library.Sublist"
begin

section \<open>Data model\<close>

text \<open>
  The records follow \<^verbatim>\<open>types.ts\<close>, \<^verbatim>\<open>services/goal/types.ts\<close> and the
  \<^verbatim>\<open>Goal\<close>/\<^verbatim>\<open>Objective\<close> interfaces of the agent core.  A property that the
  TypeScript declares optional (or that the code reads through \<^verbatim>\<open>?.\<close>) is an
  \<open>option\<close>; \<open>None\<close> is JavaScript's \<^verbatim>\<open>undefined\<close>.  Only the properties that some
  modelled function reads or writes are kept.
\<close>

datatype GoalStatus = DONE | FAILED | IN_PROGRESS

datatype ObjectiveStatus = PENDING | COMPLETED | ABORTED

record Objective =
  oid :: string
  description :: string
  completed :: bool
  ostatus :: "ObjectiveStatus option"

record Goal =
  gid :: "string option"
  gname :: string
  gstatus :: GoalStatus
  objectives :: "Objective list"

record TransferIntent =
  itype :: "string option"
  amount :: "string option"
  fromChain :: "string option"
  recipientChain :: "string option"
  fromToken :: "string option"
  fromAddress :: "string option"

record Transaction =
  tx_data :: "string option"
  tx_chainId :: "nat option"
  tx_to :: "string option"
  tx_amount :: "string option"
  serializedTransaction :: "string option"

record TransactionProposal =
  chainId :: "nat option"
  proposalFromChain :: "string option"
  transactions :: "Transaction list option"
  transaction :: "Transaction option"

record ChromaResponse =
  rtext :: string
  intent :: "TransferIntent option"
  proposals :: "TransactionProposal list option"

record GoalState =
  processingGoals :: "string set"
  goalResponses :: "string \<rightharpoonup> ChromaResponse"
  cryptoGoalCache :: "string \<rightharpoonup> bool option"

record RetryOptions =
  maxRetries :: nat
  currentAttempt :: nat

text \<open>
  A thrown JavaScript value.  \<open>Error m\<close> is \<^verbatim>\<open>new Error(m)\<close>; \<open>TypeError m\<close> is the
  error the runtime raises when a property of \<^verbatim>\<open>undefined\<close> is read or \<^verbatim>\<open>in\<close> is
  applied to a non-object.
\<close>

datatype error = Error string | TypeError string

section \<open>The environment\<close>

text \<open>
  Everything outside the package (the language model, the counterparty's HTTP API, the
  goal store, the chain RPC) answers from a tape: each awaited external call takes the
  next cell, which holds the time the call took in milliseconds and what it returned.
  A \<open>XReject\<close> cell, a cell of another kind than the call expects, and an exhausted
  tape all make the awaited promise reject.
\<close>

datatype ext =
    XReject error
  | XText "string option"
  | XBool bool
  | XDecision bool string
  | XAmounts string string
  | XReplies "ChromaResponse list"
  | XDone
  | XGas nat
  | XFees nat
  | XHash string
  | XSimulation bool

text \<open>
  One state for the whole service.  \<open>goal\<close> is the goal object a handler was handed (the
  handlers mutate it in place), \<open>service\<close> holds the three private collections of
  \<^verbatim>\<open>ChromaService\<close>, and \<open>handlerState h\<close> is \<^verbatim>\<open>this.state\<close> of the handler
  registered under index \<open>h\<close>.  \<open>clock\<close> is \<^verbatim>\<open>Date.now()\<close>; \<open>sleeps\<close>, \<open>sent\<close> and
  \<open>broadcasts\<close> log the delays the code slept, the texts given to the counterparty and
  the transactions handed to a chain, in order.  \<open>db\<close> is the goal store.
  \<open>checkInterval\<close> and \<open>hasBalance\<close> are the two local variables of
  \<^verbatim>\<open>handleBridgeConfirmation\<close> that its retried closure captures and assigns.
\<close>

record state =
  goal :: Goal
  service :: GoalState
  handlerState :: "nat \<Rightarrow> GoalState"
  tape :: "(nat \<times> ext) list"
  clock :: nat
  sleeps :: "nat list"
  sent :: "string list"
  db :: "Goal list"
  broadcasts :: "Transaction list"
  checkInterval :: nat
  hasBalance :: bool

type_synonym 'a action = "state \<Rightarrow> (error + 'a) \<times> state"

definition ret :: "'a \<Rightarrow> 'a action" where
  "ret v s = (Inr v, s)"

definition throw :: "error \<Rightarrow> 'a action" where
  "throw e s = (Inl e, s)"

definition andThen :: "'a action \<Rightarrow> ('a \<Rightarrow> 'b action) \<Rightarrow> 'b action" where
  "andThen m k s = (case m s of (Inl e, s') \<Rightarrow> (Inl e, s') | (Inr v, s') \<Rightarrow> k v s')"

definition tryCatch :: "'a action \<Rightarrow> (error \<Rightarrow> 'a action) \<Rightarrow> 'a action" where
  "tryCatch m h s = (case m s of (Inl e, s') \<Rightarrow> h e s' | (Inr v, s') \<Rightarrow> (Inr v, s'))"

definition modify :: "(state \<Rightarrow> state) \<Rightarrow> unit action" where
  "modify f s = (Inr (), f s)"

definition external :: "ext action" where
  "external s =
     (case tape s of
        [] \<Rightarrow> (Inl (Error ''no response''), s)
      | (d, x) # rest \<Rightarrow>
          (case x of
             XReject e \<Rightarrow> (Inl e, s\<lparr>tape := rest, clock := clock s + d\<rparr>)
           | _ \<Rightarrow> (Inr x, s\<lparr>tape := rest, clock := clock s + d\<rparr>)))"

definition unexpected :: "'a action" where
  "unexpected = throw (Error ''unexpected response'')"

text \<open>\<^verbatim>\<open>await new Promise(resolve => setTimeout(resolve, ms))\<close>\<close>

definition setTimeout :: "nat \<Rightarrow> state \<Rightarrow> state" where
  "setTimeout ms s = s\<lparr>clock := clock s + ms, sleeps := sleeps s @ [ms]\<rparr>"

section \<open>retryWithBackoff (services/goal/utils.ts)\<close>

definition MAX_RETRIES :: nat where
  "MAX_RETRIES = 3"

definition RETRY_DELAY_MS :: nat where
  "RETRY_DELAY_MS = 1000"

text \<open>
  The result \<^verbatim>\<open>T | null\<close> is \<open>'a option\<close>, \<open>None\<close> being \<^verbatim>\<open>null\<close>.  \<open>onAbort\<close> is the
  optional fifth parameter; it is awaited outside the \<^verbatim>\<open>try\<close>.
\<close>

function retryWithBackoff ::
  "'a action \<Rightarrow> RetryOptions \<Rightarrow> unit action option \<Rightarrow> 'a option action" where
  "retryWithBackoff operation options onAbort s =
     (if currentAttempt options \<ge> maxRetries options then
        (case onAbort of
           None \<Rightarrow> (Inr None, s)
         | Some f \<Rightarrow> (case f s of (Inl e, s') \<Rightarrow> (Inl e, s') | (Inr _, s') \<Rightarrow> (Inr None, s')))
      else
        (case operation s of
           (Inr result, s') \<Rightarrow> (Inr (Some result), s')
         | (Inl e, s') \<Rightarrow>
             retryWithBackoff operation
               (options\<lparr>currentAttempt := currentAttempt options + 1\<rparr>) onAbort
               (setTimeout (RETRY_DELAY_MS * 2 ^ currentAttempt options) s')))"
  by pat_completeness auto
termination
  by (relation "measure (\<lambda>(operation, options, onAbort, s). maxRetries options - currentAttempt options)")
     auto

text \<open>
  \<^verbatim>\<open>ChromaService.retryWithBackoff\<close> (services/index.ts): the service's own, older
  copy, without the callback; \<^verbatim>\<open>ChromaService.RETRY_DELAY_MS\<close> is 1000 as well.
\<close>

function ChromaService_retryWithBackoff :: "'a action \<Rightarrow> RetryOptions \<Rightarrow> 'a option action" where
  "ChromaService_retryWithBackoff operation options s =
     (if currentAttempt options \<ge> maxRetries options then (Inr None, s)
      else
        (case operation s of
           (Inr result, s') \<Rightarrow> (Inr (Some result), s')
         | (Inl e, s') \<Rightarrow>
             ChromaService_retryWithBackoff operation
               (options\<lparr>currentAttempt := currentAttempt options + 1\<rparr>)
               (setTimeout (1000 * 2 ^ currentAttempt options) s')))"
  by pat_completeness auto
termination
  by (relation "measure (\<lambda>(operation, options, s). maxRetries options - currentAttempt options)")
     auto

section \<open>Calls that leave the package\<close>

text \<open>
  The prompt given to the language model does not choose the tape's answer, so the
  prompt templates (and \<^verbatim>\<open>getAvailableAccounts\<close>/\<^verbatim>\<open>getChainDetailsText\<close>, which only
  feed them and catch their own errors) are not modelled.  \<open>generateText\<close> may answer
  \<^verbatim>\<open>null\<close> (\<open>None\<close>).
\<close>

definition generateText :: "string option action" where
  "generateText = andThen external (\<lambda>x. case x of XText m \<Rightarrow> ret m | _ \<Rightarrow> unexpected)"

definition generateTrueOrFalse :: "bool action" where
  "generateTrueOrFalse = andThen external (\<lambda>x. case x of XBool b \<Rightarrow> ret b | _ \<Rightarrow> unexpected)"

record Validation =
  isValid :: bool
  reason :: string

text \<open>\<^verbatim>\<open>generateObject\<close> with the schema \<^verbatim>\<open>{continue: boolean, reason: string}\<close>.\<close>

definition generateDecision :: "(bool \<times> string) action" where
  "generateDecision =
     andThen external (\<lambda>x. case x of XDecision c r \<Rightarrow> ret (c, r) | _ \<Rightarrow> unexpected)"

text \<open>\<^verbatim>\<open>generateObject\<close> with the schema \<^verbatim>\<open>{tokenAmount: string, aTokenAmount: string}\<close>.\<close>

definition generateAmounts :: "(string \<times> string) action" where
  "generateAmounts =
     andThen external (\<lambda>x. case x of XAmounts t a \<Rightarrow> ret (t, a) | _ \<Rightarrow> unexpected)"

text \<open>
  \<^verbatim>\<open>sendMessage\<close> of a handler and \<^verbatim>\<open>ChromaApiClient.sendMessage\<close>, for a client that
  \<^verbatim>\<open>initialize\<close> has given an agent.  A \<^verbatim>\<open>null\<close> text is interpolated as the word.
\<close>

definition js_string :: "string option \<Rightarrow> string" where
  "js_string m = (case m of None \<Rightarrow> ''null'' | Some t \<Rightarrow> t)"

definition sendMessage :: "string \<Rightarrow> ChromaResponse list action" where
  "sendMessage msg =
     andThen (modify (\<lambda>s. s\<lparr>sent := sent s @ [msg]\<rparr>)) (\<lambda>_.
     andThen external (\<lambda>x. case x of XReplies rs \<Rightarrow> ret rs | _ \<Rightarrow> unexpected))"

text \<open>
  Modelled from the spec: the goal store (\<^verbatim>\<open>runtime.databaseAdapter\<close>), which is not
  part of the package.  \<^verbatim>\<open>updateGoal\<close> overwrites the stored record of the goal's id
  with the object it is given, \<^verbatim>\<open>updateGoalStatus\<close> sets the status of the stored
  record, \<^verbatim>\<open>getGoals\<close> with \<^verbatim>\<open>onlyInProgress\<close> lists the records in progress (the
  store holds the goals of this agent's room only).  Each is awaited and may reject.
\<close>

definition updateGoal :: "Goal \<Rightarrow> unit action" where
  "updateGoal g =
     andThen external (\<lambda>x. case x of
        XDone \<Rightarrow> modify (\<lambda>s. s\<lparr>db := map (\<lambda>g'. if gid g' = gid g then g else g') (db s)\<rparr>)
      | _ \<Rightarrow> unexpected)"

definition updateGoalStatus :: "string \<Rightarrow> GoalStatus \<Rightarrow> unit action" where
  "updateGoalStatus i st =
     andThen external (\<lambda>x. case x of
        XDone \<Rightarrow> modify (\<lambda>s. s\<lparr>db := map (\<lambda>g'. if gid g' = Some i then g'\<lparr>gstatus := st\<rparr> else g') (db s)\<rparr>)
      | _ \<Rightarrow> unexpected)"

definition getGoals :: "Goal list action" where
  "getGoals =
     andThen external (\<lambda>x. case x of
        XDone \<Rightarrow> (\<lambda>s. (Inr (filter (\<lambda>g. gstatus g = IN_PROGRESS) (db s)), s))
      | _ \<Rightarrow> unexpected)"

section \<open>JavaScript truthiness\<close>

definition truthy_string :: "string option \<Rightarrow> bool" where
  "truthy_string v = (case v of None \<Rightarrow> False | Some t \<Rightarrow> t \<noteq> [])"

definition truthy_number :: "nat option \<Rightarrow> bool" where
  "truthy_number v = (case v of None \<Rightarrow> False | Some n \<Rightarrow> n \<noteq> 0)"

text \<open>An object reference is truthy, whatever its properties hold.\<close>

definition truthy_object :: "'a \<Rightarrow> bool" where
  "truthy_object v = True"

text \<open>\<^verbatim>\<open>String.prototype.includes\<close>\<close>

fun str_includes :: "string \<Rightarrow> string \<Rightarrow> bool" where
  "str_includes [] sub = (sub = [])"
| "str_includes (c # cs) sub = (prefix sub (c # cs) \<or> str_includes cs sub)"

text \<open>\<^verbatim>\<open>Array.prototype.find\<close>, and assignment to the element it returned.\<close>

fun find_first :: "('a \<Rightarrow> bool) \<Rightarrow> 'a list \<Rightarrow> 'a option" where
  "find_first P [] = None"
| "find_first P (x # xs) = (if P x then Some x else find_first P xs)"

fun update_first :: "('a \<Rightarrow> bool) \<Rightarrow> ('a \<Rightarrow> 'a) \<Rightarrow> 'a list \<Rightarrow> 'a list" where
  "update_first P f [] = []"
| "update_first P f (x # xs) = (if P x then f x # xs else x # update_first P f xs)"

section \<open>isCryptoGoal (services/goal/utils.ts)\<close>

text \<open>
  The cache argument is \<^verbatim>\<open>ChromaService.cryptoGoalCache\<close>, the only map the function is
  called with.  A key present with the value \<^verbatim>\<open>undefined\<close> is \<open>Some None\<close>; the function
  then returns \<^verbatim>\<open>undefined\<close>, here \<open>None\<close>.
\<close>

definition set_cryptoGoalCache :: "string \<Rightarrow> bool option \<Rightarrow> state \<Rightarrow> state" where
  "set_cryptoGoalCache i v s =
     s\<lparr>service := (service s)\<lparr>cryptoGoalCache := (cryptoGoalCache (service s))(i \<mapsto> v)\<rparr>\<rparr>"

definition isCryptoGoal :: "Goal \<Rightarrow> bool option action" where
  "isCryptoGoal g s =
     (case gid g of
        None \<Rightarrow> (Inr (Some False), s)
      | Some i \<Rightarrow>
          if i = [] then (Inr (Some False), s)
          else
            (case cryptoGoalCache (service s) i of
               Some cached \<Rightarrow> (Inr cached, s)
             | None \<Rightarrow>
                 (case generateTrueOrFalse (set_cryptoGoalCache i None s) of
                    (Inl e, s') \<Rightarrow> (Inl e, s')
                  | (Inr result, s') \<Rightarrow>
                      (Inr (Some result), set_cryptoGoalCache i (Some result) s'))))"

section \<open>Signature handlers (services/signatures)\<close>

datatype SignatureHandler = EVMSignatureHandler | SolanaSignatureHandler

text \<open>
  What \<^verbatim>\<open>initialize\<close> left in the two handlers and the settings they read later:
  \<^verbatim>\<open>CHROMA_EVM_CHAINS\<close>, the EVM account's address (\<^verbatim>\<open>this.account\<close>), whether the
  Solana handler has both its connection and its keypair, and
  \<^verbatim>\<open>CHROMA_EXAMPLE_MODE\<close>.
\<close>

record config =
  CHROMA_EVM_CHAINS :: "string option"
  evmAccount :: "string option"
  solanaReady :: bool
  CHROMA_EXAMPLE_MODE :: bool

text \<open>\<^verbatim>\<open>!proposal.transaction?.serializedTransaction\<close>\<close>

definition EVM_supportsChain :: "TransactionProposal \<Rightarrow> error + bool" where
  "EVM_supportsChain proposal =
     Inr (\<not> (case transaction proposal of
                None \<Rightarrow> False
              | Some tx \<Rightarrow> truthy_string (serializedTransaction tx)))"

text \<open>
  \<^verbatim>\<open>'serializedTransaction' in proposal.transaction\<close>: the operator throws a TypeError
  when its right operand is \<^verbatim>\<open>undefined\<close>.
\<close>

definition Solana_supportsChain :: "TransactionProposal \<Rightarrow> error + bool" where
  "Solana_supportsChain proposal =
     (case transaction proposal of
        None \<Rightarrow> Inl (TypeError ''Cannot use in operator to search for serializedTransaction in undefined'')
      | Some tx \<Rightarrow> Inr (serializedTransaction tx \<noteq> None))"

definition supportsChain :: "SignatureHandler \<Rightarrow> TransactionProposal \<Rightarrow> error + bool" where
  "supportsChain h proposal =
     (case h of
        EVMSignatureHandler \<Rightarrow> EVM_supportsChain proposal
      | SolanaSignatureHandler \<Rightarrow> Solana_supportsChain proposal)"

text \<open>\<^verbatim>\<open>this.signatureHandlers = [evmHandler, solanaHandler]\<close>\<close>

definition signatureHandlers :: "SignatureHandler list" where
  "signatureHandlers = [EVMSignatureHandler, SolanaSignatureHandler]"

text \<open>
  \<^verbatim>\<open>this.signatureHandlers.find(h => h.supportsChain(proposal))\<close>: the first handler whose
  predicate holds; a predicate that throws ends the search with its error.
\<close>

fun find_handler :: "SignatureHandler list \<Rightarrow> TransactionProposal \<Rightarrow> error + SignatureHandler option" where
  "find_handler [] proposal = Inr None"
| "find_handler (h # hs) proposal =
     (case supportsChain h proposal of
        Inl e \<Rightarrow> Inl e
      | Inr True \<Rightarrow> Inr (Some h)
      | Inr False \<Rightarrow> find_handler hs proposal)"

definition getSignatureHandler :: "SignatureHandler list \<Rightarrow> TransactionProposal \<Rightarrow> error + SignatureHandler" where
  "getSignatureHandler hs proposal =
     (case find_handler hs proposal of
        Inl e \<Rightarrow> Inl e
      | Inr None \<Rightarrow> Inl (Error ''No signature handler found for chain'')
      | Inr (Some handler) \<Rightarrow> Inr handler)"

text \<open>
  \<^verbatim>\<open>EVMSignatureHandler.getAccount('evm')\<close>; the result is the account's address.
\<close>

definition EVM_getAccount :: "config \<Rightarrow> error + string" where
  "EVM_getAccount cfg =
     (if \<not> truthy_string (CHROMA_EVM_CHAINS cfg) then Inl (Error ''CHROMA_EVM_CHAINS not configured'')
      else
        (case evmAccount cfg of
           None \<Rightarrow> Inl (Error ''EVM account not initialized'')
         | Some address \<Rightarrow> Inr address))"

text \<open>
  The chains \<^verbatim>\<open>initialize\<close> creates a client for (\<^verbatim>\<open>SUPPORTED_CHAINS\<close>): sepolia,
  optimismSepolia, arbitrumSepolia, baseSepolia, mainnet, optimism, arbitrum, base.
\<close>

definition SUPPORTED_CHAINS :: "nat list" where
  "SUPPORTED_CHAINS = [11155111, 11155420, 421614, 84532, 1, 10, 42161, 8453]"

text \<open>
  \<^verbatim>\<open>processTransaction\<close>.  The gas limit and the fees are computed in floating point
  and only passed on to \<^verbatim>\<open>sendTransaction\<close>; the model keeps the calls (each may
  reject) and the fallback of the gas estimate, not the numbers.  The transaction is
  logged when it is handed to the wallet client.
\<close>

definition processTransaction :: "Transaction \<Rightarrow> string action" where
  "processTransaction tx =
     (let chain = (case tx_chainId tx of None \<Rightarrow> 11155111 | Some n \<Rightarrow> if n = 0 then 11155111 else n) in
      if chain \<notin> set SUPPORTED_CHAINS then throw (Error ''No clients initialized for chain ID'')
      else if \<not> truthy_string (tx_data tx) then throw (Error ''Transaction data is required'')
      else
        andThen (tryCatch (andThen external (\<lambda>x. case x of XGas n \<Rightarrow> ret n | _ \<Rightarrow> unexpected))
                   (\<lambda>e. ret (if tx_data tx \<noteq> Some ''0x'' then 300000 else 21000))) (\<lambda>gasEstimate.
        andThen (andThen external (\<lambda>x. case x of XFees n \<Rightarrow> ret n | _ \<Rightarrow> unexpected)) (\<lambda>feeData.
        andThen (modify (\<lambda>s. s\<lparr>broadcasts := broadcasts s @ [tx]\<rparr>)) (\<lambda>_.
        andThen (andThen external (\<lambda>x. case x of XHash h \<Rightarrow> ret h | _ \<Rightarrow> unexpected)) (\<lambda>hash.
        andThen (andThen external (\<lambda>x. case x of XDone \<Rightarrow> ret () | _ \<Rightarrow> unexpected)) (\<lambda>_.
        ret hash))))))"

fun processTransactions :: "Transaction list \<Rightarrow> string list action" where
  "processTransactions [] = ret []"
| "processTransactions (tx # txs) =
     andThen (processTransaction tx) (\<lambda>hash.
     andThen (processTransactions txs) (\<lambda>results. ret (hash # results)))"

datatype SignResult = Signature string | Signatures "string list"

text \<open>
  \<^verbatim>\<open>EVMSignatureHandler.signProposal\<close>; its \<^verbatim>\<open>catch\<close> logs and rethrows the same
  error.
\<close>

definition EVM_signProposal :: "config \<Rightarrow> TransactionProposal \<Rightarrow> SignResult action" where
  "EVM_signProposal cfg proposal =
     (case EVM_getAccount cfg of
        Inl e \<Rightarrow> throw e
      | Inr account \<Rightarrow>
          (case transactions proposal of
             None \<Rightarrow> ret (Signatures [])
           | Some txs \<Rightarrow>
               if txs = [] then ret (Signatures [])
               else andThen (processTransactions txs) (\<lambda>results. ret (Signatures results))))"

text \<open>
  \<^verbatim>\<open>SolanaSignatureHandler.signProposal\<close>.  Whether
  \<^verbatim>\<open>VersionedTransaction.deserialize\<close> accepts the decoded blob is the library's
  matter: \<open>deserializes\<close> is that predicate.
\<close>

definition Solana_signProposal ::
  "config \<Rightarrow> (string \<Rightarrow> bool) \<Rightarrow> TransactionProposal \<Rightarrow> SignResult action" where
  "Solana_signProposal cfg deserializes proposal =
     (if \<not> solanaReady cfg then throw (Error ''Handler not properly initialized'')
      else if transactions proposal \<noteq> None then throw (Error ''Multiple transactions not supported for Solana'')
      else
        (case transaction proposal of
           None \<Rightarrow> throw (Error ''No transaction found in proposal'')
         | Some tx \<Rightarrow>
             (case serializedTransaction tx of
                None \<Rightarrow> throw (TypeError ''The first argument must be of type string'')
              | Some blob \<Rightarrow>
                  if \<not> deserializes blob then throw (Error ''failed to deserialize transaction'')
                  else if CHROMA_EXAMPLE_MODE cfg then
                    andThen external (\<lambda>x. case x of
                       XSimulation ok \<Rightarrow>
                         ret (Signature (if ok then ''simulation_success'' else ''simulation_failed''))
                     | _ \<Rightarrow> unexpected)
                  else
                    andThen (andThen external (\<lambda>x. case x of XDone \<Rightarrow> ret () | _ \<Rightarrow> unexpected)) (\<lambda>latestBlockHash.
                    andThen (modify (\<lambda>s. s\<lparr>broadcasts := broadcasts s @ [tx]\<rparr>)) (\<lambda>_.
                    andThen (andThen external (\<lambda>x. case x of XHash h \<Rightarrow> ret h | _ \<Rightarrow> unexpected)) (\<lambda>signature.
                    andThen (andThen external (\<lambda>x. case x of XDone \<Rightarrow> ret () | _ \<Rightarrow> unexpected)) (\<lambda>_.
                    ret (Signature signature))))))))"

section \<open>BaseGoalHandler (services/goal/handlers/base.ts)\<close>

definition map_handlerState :: "nat \<Rightarrow> (GoalState \<Rightarrow> GoalState) \<Rightarrow> state \<Rightarrow> state" where
  "map_handlerState h f s = s\<lparr>handlerState := (handlerState s)(h := f (handlerState s h))\<rparr>"

definition getLatestResponse :: "nat \<Rightarrow> state \<Rightarrow> ChromaResponse option" where
  "getLatestResponse h s =
     (case gid (goal s) of
        None \<Rightarrow> None
      | Some i \<Rightarrow> if i = [] then None else goalResponses (handlerState s h) i)"

definition storeResponse :: "nat \<Rightarrow> ChromaResponse \<Rightarrow> unit action" where
  "storeResponse h response s =
     (case gid (goal s) of
        None \<Rightarrow> (Inr (), s)
      | Some i \<Rightarrow>
          if i = [] then (Inr (), s)
          else (Inr (), map_handlerState h
                  (\<lambda>st. st\<lparr>goalResponses := (goalResponses st)(i \<mapsto> response)\<rparr>) s))"

definition clearGoalState :: "string \<Rightarrow> GoalState \<Rightarrow> GoalState" where
  "clearGoalState goalId st =
     st\<lparr>processingGoals := processingGoals st - {goalId},
        goalResponses := (goalResponses st)(goalId := None),
        cryptoGoalCache := (cryptoGoalCache st)(goalId := None)\<rparr>"

definition clearState :: "nat \<Rightarrow> string \<Rightarrow> state \<Rightarrow> state" where
  "clearState h goalId = map_handlerState h (clearGoalState goalId)"

definition completeObjective :: "string \<Rightarrow> unit action" where
  "completeObjective objectiveId s =
     (case find_first (\<lambda>obj. oid obj = objectiveId) (objectives (goal s)) of
        None \<Rightarrow> (Inr (), s)
      | Some objective \<Rightarrow>
          (let s1 = s\<lparr>goal := (goal s)\<lparr>objectives :=
                      update_first (\<lambda>obj. oid obj = objectiveId) (\<lambda>obj. obj\<lparr>completed := True\<rparr>)
                        (objectives (goal s))\<rparr>\<rparr>
           in updateGoal (goal s1) s1))"

text \<open>The goal object once \<^verbatim>\<open>objective.completed = true\<close> has been assigned.\<close>

definition completed_goal :: "string \<Rightarrow> Goal \<Rightarrow> Goal" where
  "completed_goal objectiveId g =
     g\<lparr>objectives := update_first (\<lambda>obj. oid obj = objectiveId) (\<lambda>obj. obj\<lparr>completed := True\<rparr>)
                       (objectives g)\<rparr>"

definition completeGoal :: "nat \<Rightarrow> unit action" where
  "completeGoal h s =
     (case gid (goal s) of
        None \<Rightarrow> (Inr (), s)
      | Some i \<Rightarrow>
          if i = [] then (Inr (), s)
          else updateGoalStatus i DONE
                 (map_handlerState h (\<lambda>st. st\<lparr>goalResponses := (goalResponses st)(i := None)\<rparr>) s))"

definition failGoal :: "nat \<Rightarrow> unit action" where
  "failGoal h s =
     (case gid (goal s) of
        None \<Rightarrow> (Inr (), s)
      | Some i \<Rightarrow>
          if i = [] then (Inr (), s)
          else updateGoalStatus i FAILED
                 (map_handlerState h (\<lambda>st. st\<lparr>goalResponses := (goalResponses st)(i := None)\<rparr>) s))"

text \<open>\<^verbatim>\<open>BaseGoalHandler.retryWithBackoff\<close>: no callback is passed on.\<close>

definition Base_retryWithBackoff :: "'a action \<Rightarrow> 'a option action" where
  "Base_retryWithBackoff operation =
     retryWithBackoff operation \<lparr>maxRetries = MAX_RETRIES, currentAttempt = 0\<rparr> None"

text \<open>
  The block every handler step ends with:
  \<^verbatim>\<open>if (!result) { const objective = ...find(...); if (objective) { objective.status = ABORTED; await updateGoal(goal) } }\<close>.
  \<^verbatim>\<open>!result\<close> holds for \<^verbatim>\<open>null\<close> and for \<^verbatim>\<open>false\<close>.
\<close>

definition falsy_result :: "bool option \<Rightarrow> bool" where
  "falsy_result result = (case result of None \<Rightarrow> True | Some b \<Rightarrow> \<not> b)"

definition markAborted :: "string \<Rightarrow> unit action" where
  "markAborted objectiveId s =
     (case find_first (\<lambda>obj. oid obj = objectiveId) (objectives (goal s)) of
        None \<Rightarrow> (Inr (), s)
      | Some objective \<Rightarrow>
          (let s1 = s\<lparr>goal := (goal s)\<lparr>objectives :=
                      update_first (\<lambda>obj. oid obj = objectiveId) (\<lambda>obj. obj\<lparr>ostatus := Some ABORTED\<rparr>)
                        (objectives (goal s))\<rparr>\<rparr>
           in updateGoal (goal s1) s1))"

definition abortUnless :: "string \<Rightarrow> bool option \<Rightarrow> unit action" where
  "abortUnless objectiveId result =
     (if falsy_result result then markAborted objectiveId else ret ())"

definition getObjectiveStatus :: "Goal \<Rightarrow> string \<Rightarrow> ObjectiveStatus" where
  "getObjectiveStatus g objectiveId =
     (case find_first (\<lambda>obj. oid obj = objectiveId) (objectives g) of
        None \<Rightarrow> PENDING
      | Some objective \<Rightarrow>
          if completed objective then COMPLETED
          else if ostatus objective = Some ABORTED then ABORTED
          else PENDING)"

section \<open>Validation of replies (services/goal/utils.ts)\<close>

definition error_message :: "error \<Rightarrow> string" where
  "error_message e = (case e of Error m \<Rightarrow> m | TypeError m \<Rightarrow> m)"

definition validateIntroResponse :: "ChromaResponse list \<Rightarrow> Validation action" where
  "validateIntroResponse responses =
     tryCatch (andThen generateDecision (\<lambda>(c, r). ret \<lparr>isValid = c, reason = r\<rparr>))
       (\<lambda>e. ret \<lparr>isValid = True,
                 reason = ''Default to valid due to validation error: '' @ error_message e\<rparr>)"

definition bridge_fast_path :: "ChromaResponse \<Rightarrow> bool" where
  "bridge_fast_path response =
     (case intent response of
        None \<Rightarrow> False
      | Some i \<Rightarrow>
          itype i = Some ''BRIDGE'' \<or>
          ((case fromChain i of None \<Rightarrow> False | Some c \<Rightarrow> str_includes c ''sepolia'') \<and>
           (case recipientChain i of None \<Rightarrow> False | Some c \<Rightarrow> str_includes c ''sepolia'') \<and>
           truthy_string (amount i)))"

definition withdraw_fast_path :: "ChromaResponse \<Rightarrow> bool" where
  "withdraw_fast_path response =
     (case intent response of
        None \<Rightarrow> False
      | Some i \<Rightarrow>
          itype i = Some ''WITHDRAW'' \<or>
          (truthy_string (fromToken i) \<and> truthy_string (amount i) \<and> truthy_string (fromAddress i)))"

definition validateOperationResponse :: "ChromaResponse \<Rightarrow> Validation action" where
  "validateOperationResponse response =
     (if bridge_fast_path response then
        ret \<lparr>isValid = True, reason = ''Valid bridge intent with all required fields''\<rparr>
      else if withdraw_fast_path response then
        ret \<lparr>isValid = True, reason = ''Valid withdraw intent with all required fields''\<rparr>
      else
        tryCatch (andThen generateDecision (\<lambda>(c, r). ret \<lparr>isValid = c, reason = r\<rparr>))
          (\<lambda>e. ret \<lparr>isValid = True,
                    reason = ''Default to valid due to validation error: '' @ error_message e\<rparr>))"

section \<open>SingleChainGoalHandler (services/goal/handlers/singleChain.ts)\<close>

text \<open>
  \<open>h\<close> is the index of the handler's own state.  The handler's API client is the
  initialised one (\<^verbatim>\<open>initialize\<close> throws otherwise).
\<close>

definition chainIds :: "string \<Rightarrow> nat option" where
  "chainIds n =
     (if n = ''evm'' then Some 1 else if n = ''solana'' then Some 1
      else if n = ''eth-sepolia'' then Some 11155111 else if n = ''sepolia'' then Some 11155111
      else if n = ''optimism-sepolia'' then Some 11155420 else if n = ''opt-sepolia'' then Some 11155420
      else if n = ''arbitrum-sepolia'' then Some 421614 else if n = ''arb-sepolia'' then Some 421614
      else if n = ''base-sepolia'' then Some 84532 else if n = ''ethereum'' then Some 1
      else if n = ''optimism'' then Some 10 else if n = ''arbitrum'' then Some 42161
      else if n = ''base'' then Some 8453 else None)"

text \<open>
  \<^verbatim>\<open>ensureChainId\<close> assigns \<^verbatim>\<open>proposal.chainId\<close> in place; the model hands the
  updated proposal to the signer and leaves the stored reply as it was (nothing reads
  the stored proposal's chain id, and a second call computes the same result).
\<close>

definition ensureChainId :: "TransactionProposal \<Rightarrow> TransactionProposal" where
  "ensureChainId proposal =
     (if truthy_number (chainId proposal) then proposal
      else
        (case proposalFromChain proposal of
           Some n \<Rightarrow>
             if n \<noteq> [] then proposal\<lparr>chainId := chainIds n\<rparr>
             else (case transactions proposal of
                     None \<Rightarrow> proposal
                   | Some txs \<Rightarrow> proposal\<lparr>chainId := (case txs of [] \<Rightarrow> None | tx # _ \<Rightarrow> tx_chainId tx)\<rparr>)
         | None \<Rightarrow>
             (case transactions proposal of
                None \<Rightarrow> proposal
              | Some txs \<Rightarrow> proposal\<lparr>chainId := (case txs of [] \<Rightarrow> None | tx # _ \<Rightarrow> tx_chainId tx)\<rparr>)))"

definition signProposal ::
  "config \<Rightarrow> (string \<Rightarrow> bool) \<Rightarrow> TransactionProposal \<Rightarrow> SignResult action" where
  "signProposal cfg deserializes proposal =
     (case getSignatureHandler signatureHandlers proposal of
        Inl e \<Rightarrow> throw e
      | Inr EVMSignatureHandler \<Rightarrow> EVM_signProposal cfg (ensureChainId proposal)
      | Inr SolanaSignatureHandler \<Rightarrow> Solana_signProposal cfg deserializes (ensureChainId proposal))"

definition SingleChain_supportsGoal :: "Goal \<Rightarrow> bool" where
  "SingleChain_supportsGoal g =
     list_ex (\<lambda>obj. oid obj = ''introduce-agent'' \<and>
                \<not> list_ex (\<lambda>obj. str_includes (oid obj) ''chain'') (objectives g))
       (objectives g)"

definition SingleChain_handleIntroduction :: "nat \<Rightarrow> unit action" where
  "SingleChain_handleIntroduction h =
     andThen
       (Base_retryWithBackoff
          (andThen generateText (\<lambda>introMessage.
           andThen (sendMessage (js_string introMessage)) (\<lambda>response.
           andThen (validateIntroResponse response) (\<lambda>isIntroductionValid.
           if truthy_object isIntroductionValid then
             andThen (completeObjective ''introduce-agent'') (\<lambda>_. ret True)
           else throw (Error ''Introduction validation failed''))))))
       (abortUnless ''introduce-agent'')"

definition SingleChain_handleOperation :: "nat \<Rightarrow> unit action" where
  "SingleChain_handleOperation h =
     andThen
       (Base_retryWithBackoff
          (andThen generateText (\<lambda>operationMessage.
           if \<not> truthy_string operationMessage then ret False
           else
             andThen (sendMessage (js_string operationMessage)) (\<lambda>response.
             case find_first (\<lambda>r. intent r \<noteq> None) response of
               None \<Rightarrow> throw (Error ''No intent found in response'')
             | Some responseWithIntent \<Rightarrow>
                 andThen (validateOperationResponse responseWithIntent) (\<lambda>isValidIntent.
                 if \<not> truthy_object isValidIntent then throw (Error ''Invalid intent received'')
                 else
                   andThen (storeResponse h responseWithIntent) (\<lambda>_.
                   andThen (completeObjective ''present-operation'') (\<lambda>_. ret True)))))))
       (abortUnless ''present-operation'')"

definition has_proposals :: "ChromaResponse \<Rightarrow> bool" where
  "has_proposals r = (case proposals r of None \<Rightarrow> False | Some ps \<Rightarrow> ps \<noteq> [])"

definition SingleChain_handleIntent :: "nat \<Rightarrow> unit action" where
  "SingleChain_handleIntent h s =
     (case getLatestResponse h s of
        None \<Rightarrow> (Inr (), s)
      | Some storedResponse \<Rightarrow>
          (case intent storedResponse of
             None \<Rightarrow> (Inr (), s)
           | Some _ \<Rightarrow>
               andThen generateText (\<lambda>confirmMessage.
               andThen
                 (Base_retryWithBackoff
                    (andThen (sendMessage (js_string confirmMessage)) (\<lambda>response.
                     case find_first has_proposals response of
                       Some responseWithProposal \<Rightarrow>
                         andThen (storeResponse h responseWithProposal) (\<lambda>_.
                         andThen (completeObjective ''confirm-intent'') (\<lambda>_. ret True))
                     | None \<Rightarrow> throw (Error ''No proposal received after confirmation''))))
                 (abortUnless ''confirm-intent'')) s))"

definition SingleChain_handleProposal :: "config \<Rightarrow> (string \<Rightarrow> bool) \<Rightarrow> nat \<Rightarrow> unit action" where
  "SingleChain_handleProposal cfg deserializes h s =
     (case getLatestResponse h s of
        None \<Rightarrow> (Inr (), s)
      | Some storedResponse \<Rightarrow>
          (case proposals storedResponse of
             None \<Rightarrow> (Inr (), s)
           | Some ps \<Rightarrow>
               andThen
                 (Base_retryWithBackoff
                    (andThen
                       (case ps of
                          [] \<Rightarrow> throw (TypeError ''Cannot read properties of undefined'')
                        | proposal # _ \<Rightarrow> signProposal cfg deserializes proposal) (\<lambda>result.
                     andThen (completeObjective ''process-proposal'') (\<lambda>_.
                     andThen (completeGoal h) (\<lambda>_. ret True)))))
                 (abortUnless ''process-proposal'') s))"

definition SingleChain_step ::
  "config \<Rightarrow> (string \<Rightarrow> bool) \<Rightarrow> nat \<Rightarrow> string \<Rightarrow> unit action option" where
  "SingleChain_step cfg deserializes h objectiveId =
     (if objectiveId = ''introduce-agent'' then Some (SingleChain_handleIntroduction h)
      else if objectiveId = ''present-operation'' then Some (SingleChain_handleOperation h)
      else if objectiveId = ''confirm-intent'' then Some (SingleChain_handleIntent h)
      else if objectiveId = ''process-proposal'' then Some (SingleChain_handleProposal cfg deserializes h)
      else None)"

text \<open>
  \<^verbatim>\<open>processObjective\<close> calls itself for as long as steps complete; with two objectives
  of one id the source can recurse for ever, so the model counts the nesting down from
  \<open>fuel\<close> and answers \<open>None\<close> when it runs out.  \<open>SingleChain_tryBlock\<close> is the body of
  the \<^verbatim>\<open>try\<close>, with the nested call as \<open>recurse\<close>.  The \<^verbatim>\<open>catch\<close> fails the goal and
  rethrows; when \<^verbatim>\<open>failGoal\<close> itself rejects, its error is the one that leaves.
\<close>

definition SingleChain_tryBlock ::
  "config \<Rightarrow> (string \<Rightarrow> bool) \<Rightarrow> nat \<Rightarrow> (state \<Rightarrow> ((error + unit) \<times> state) option) \<Rightarrow>
   state \<Rightarrow> ((error + unit) \<times> state) option" where
  "SingleChain_tryBlock cfg deserializes h recurse s =
     (case find_first (\<lambda>obj. \<not> completed obj) (objectives (goal s)) of
        None \<Rightarrow> Some (completeGoal h s)
      | Some pendingObjective \<Rightarrow>
          (case SingleChain_step cfg deserializes h (oid pendingObjective) of
             None \<Rightarrow> Some (Inr (), s)
           | Some step \<Rightarrow>
               (case step s of
                  (Inl e, s1) \<Rightarrow> Some (Inl e, s1)
                | (Inr _, s1) \<Rightarrow>
                    if getObjectiveStatus (goal s1) (oid pendingObjective) = COMPLETED
                       \<and> find_first (\<lambda>obj. \<not> completed obj) (objectives (goal s1)) \<noteq> None
                    then recurse s1
                    else Some (Inr (), s1))))"

fun SingleChain_processObjective ::
  "config \<Rightarrow> (string \<Rightarrow> bool) \<Rightarrow> nat \<Rightarrow> nat \<Rightarrow> state \<Rightarrow> ((error + unit) \<times> state) option" where
  "SingleChain_processObjective cfg deserializes h 0 s = None"
| "SingleChain_processObjective cfg deserializes h (Suc fuel) s =
     (case gid (goal s) of
        None \<Rightarrow> Some (Inr (), s)
      | Some i \<Rightarrow>
          if i = [] then Some (Inr (), s)
          else
            (case SingleChain_tryBlock cfg deserializes h
                    (SingleChain_processObjective cfg deserializes h fuel) s of
               None \<Rightarrow> None
             | Some (Inr _, s') \<Rightarrow> Some (Inr (), s')
             | Some (Inl e, s') \<Rightarrow>
                 (case failGoal h s' of
                    (Inl e', s'') \<Rightarrow> Some (Inl e', s'')
                  | (Inr _, s'') \<Rightarrow> Some (Inl e, s''))))"

section \<open>The scheduler (ChromaService.processGoals, services/index.ts)\<close>

text \<open>
  A registered handler, as the scheduler sees it through \<^verbatim>\<open>GoalHandlerInterface\<close>:
  where its state lives, its routing predicate and its \<^verbatim>\<open>processObjective\<close>.
  \<^verbatim>\<open>clearState\<close> is \<^verbatim>\<open>BaseGoalHandler\<close>'s for every handler of the package.
\<close>

record GoalHandler =
  self :: nat
  supportsGoal :: "Goal \<Rightarrow> bool"
  processObjective :: "nat \<Rightarrow> state \<Rightarrow> ((error + unit) \<times> state) option"

definition SingleChainGoalHandler :: "config \<Rightarrow> (string \<Rightarrow> bool) \<Rightarrow> nat \<Rightarrow> GoalHandler" where
  "SingleChainGoalHandler cfg deserializes h =
     \<lparr>self = h, supportsGoal = SingleChain_supportsGoal,
      processObjective = SingleChain_processObjective cfg deserializes h\<rparr>"

definition CDP_supportsGoal :: "Goal \<Rightarrow> bool" where
  "CDP_supportsGoal g = list_ex (\<lambda>obj. oid obj = ''ask-for-wallet'') (objectives g)"

definition MultiChain_supportsGoal :: "Goal \<Rightarrow> bool" where
  "MultiChain_supportsGoal g =
     list_ex (\<lambda>obj. oid obj = ''introduce-agent'' \<and>
                list_ex (\<lambda>obj. str_includes (oid obj) ''chain'') (objectives g))
       (objectives g)"

definition getHandlerForGoal :: "GoalHandler list \<Rightarrow> Goal \<Rightarrow> GoalHandler option" where
  "getHandlerForGoal handlers g = find_first (\<lambda>handler. supportsGoal handler g) handlers"

definition clearProcessingState :: "string \<Rightarrow> state \<Rightarrow> state" where
  "clearProcessingState goalId s = s\<lparr>service := clearGoalState goalId (service s)\<rparr>"

text \<open>
  The body of \<^verbatim>\<open>for (const goal of goals)\<close>.  A rejection of \<open>isCryptoGoal\<close> is outside
  the \<^verbatim>\<open>try\<close> and ends \<^verbatim>\<open>processGoals\<close>; the \<^verbatim>\<open>continue\<close> for a goal no handler
  supports is inside it, after the id was added.
\<close>

fun processGoals_loop ::
  "GoalHandler list \<Rightarrow> nat \<Rightarrow> Goal list \<Rightarrow> state \<Rightarrow> ((error + unit) \<times> state) option" where
  "processGoals_loop handlers fuel [] s = Some (Inr (), s)"
| "processGoals_loop handlers fuel (g # goals) s =
     (case gid g of
        None \<Rightarrow> processGoals_loop handlers fuel goals s
      | Some i \<Rightarrow>
          if i = [] then processGoals_loop handlers fuel goals s
          else if i \<in> processingGoals (service s) then processGoals_loop handlers fuel goals s
          else
            (case isCryptoGoal g s of
               (Inl e, s1) \<Rightarrow> Some (Inl e, s1)
             | (Inr isCrypto, s1) \<Rightarrow>
                 if isCrypto \<noteq> Some True then processGoals_loop handlers fuel goals s1
                 else
                   (let s2 = s1\<lparr>service := (service s1)\<lparr>processingGoals :=
                                 insert i (processingGoals (service s1))\<rparr>\<rparr>
                    in case getHandlerForGoal handlers g of
                         None \<Rightarrow> processGoals_loop handlers fuel goals s2
                       | Some handler \<Rightarrow>
                           (case processObjective handler fuel (s2\<lparr>goal := g\<rparr>) of
                              None \<Rightarrow> None
                            | Some (Inr _, s3) \<Rightarrow> processGoals_loop handlers fuel goals s3
                            | Some (Inl e, s3) \<Rightarrow>
                                processGoals_loop handlers fuel goals
                                  (fold (\<lambda>handler. clearState (self handler) i) handlers
                                     (clearProcessingState i s3))))))"

definition processGoals :: "GoalHandler list \<Rightarrow> nat \<Rightarrow> state \<Rightarrow> ((error + unit) \<times> state) option" where
  "processGoals handlers fuel s =
     (case getGoals s of
        (Inl e, s') \<Rightarrow> Some (Inl e, s')
      | (Inr goals, s') \<Rightarrow> processGoals_loop handlers fuel goals s')"

section \<open>The bridge-confirmation wait (MultiChainGoalHandler.handleBridgeConfirmation)\<close>

definition MAX_BRIDGE_WAIT_TIME_MS :: nat where
  "MAX_BRIDGE_WAIT_TIME_MS = 40 * 60 * 1000"

definition BRIDGE_INITIAL_CHECK_INTERVAL_MS :: nat where
  "BRIDGE_INITIAL_CHECK_INTERVAL_MS = 10 * 1000"

definition balanceQuery :: string where
  "balanceQuery = ''What'' @ [CHR 0x27] @ ''s my balance on Arbitrum Sepolia?''"

text \<open>\<^verbatim>\<open>value.trim().replace(/[^\d.]/g, '')\<close>\<close>

definition clean_amount :: "string \<Rightarrow> string" where
  "clean_amount v = filter (\<lambda>c. c \<in> set ''0123456789.'') v"

text \<open>
  \<^verbatim>\<open>extractTokenAmounts(response).tokenAmount\<close>: the cleaned base-token amount, absent
  when nothing is left of it or when the extraction failed (the function catches that
  and returns an empty object).
\<close>

definition extractTokenAmounts :: "ChromaResponse list \<Rightarrow> string option action" where
  "extractTokenAmounts response =
     tryCatch
       (andThen generateAmounts (\<lambda>(tokenAmount, aTokenAmount).
          ret (if clean_amount tokenAmount \<noteq> [] then Some (clean_amount tokenAmount) else None)))
       (\<lambda>e. ret None)"

lemma external_tape:
  "external s = (r, s') \<Longrightarrow> length (tape s') \<le> length (tape s)"
  by (auto simp: external_def split: list.splits ext.splits)

lemma external_tape_less:
  "external s = (Inr x, s') \<Longrightarrow> length (tape s') < length (tape s)"
  by (auto simp: external_def split: list.splits ext.splits)

lemma sendMessage_tape_less:
  "sendMessage msg s = (Inr rs, s') \<Longrightarrow> length (tape s') < length (tape s)"
  by (auto simp: sendMessage_def andThen_def modify_def ret_def unexpected_def throw_def
      split: prod.splits sum.splits ext.splits dest!: external_tape_less)

lemma extractTokenAmounts_tape:
  "extractTokenAmounts response s = (r, s') \<Longrightarrow> length (tape s') \<le> length (tape s)"
  by (auto simp: extractTokenAmounts_def generateAmounts_def tryCatch_def andThen_def ret_def
      unexpected_def throw_def
      split: prod.splits sum.splits ext.splits if_splits dest!: external_tape)

text \<open>
  The \<^verbatim>\<open>while (Date.now() - startTime < MAX_BRIDGE_WAIT_TIME_MS)\<close> loop.  The result is
  \<open>Some True\<close> for the \<^verbatim>\<open>return true\<close> inside the loop and \<open>None\<close> when the loop ends.
  \<open>parseFloat_positive a\<close> stands for \<^verbatim>\<open>parseFloat(a) > 0\<close>: JavaScript's number
  parsing is not modelled.  Every round reads the tape, so the recursion ends with it.
\<close>

function bridgePoll :: "(string \<Rightarrow> bool) \<Rightarrow> nat \<Rightarrow> state \<Rightarrow> (error + bool option) \<times> state" where
  "bridgePoll parseFloat_positive startTime s =
     (if clock s - startTime < MAX_BRIDGE_WAIT_TIME_MS then
        (case sendMessage balanceQuery s of
           (Inl e, s1) \<Rightarrow> (Inl e, s1)
         | (Inr balanceResponse, s1) \<Rightarrow>
             (case extractTokenAmounts balanceResponse s1 of
                (Inl e, s2) \<Rightarrow> (Inl e, s2)
              | (Inr usdcAmount, s2) \<Rightarrow>
                  if (case usdcAmount of None \<Rightarrow> False | Some a \<Rightarrow> parseFloat_positive a) then
                    (case completeObjective ''wait-for-chain-b-confirmation'' (s2\<lparr>hasBalance := True\<rparr>) of
                       (Inl e, s3) \<Rightarrow> (Inl e, s3)
                     | (Inr _, s3) \<Rightarrow> (Inr (Some True), s3))
                  else
                    bridgePoll parseFloat_positive startTime
                      ((setTimeout (checkInterval s2) s2)
                         \<lparr>checkInterval := min (checkInterval s2 * 2) 60000\<rparr>)))
      else (Inr None, s))"
  by pat_completeness auto
termination
proof (relation "measure (\<lambda>(p, t, s). length (tape s))", goal_cases)
  case 1
  show ?case by simp
next
  case (2 p t s x1 s1 r x2 s2 a)
  from 2 have a: "sendMessage balanceQuery s = (Inr r, s1)"
    by simp
  from 2 have b: "extractTokenAmounts r s1 = (Inr a, s2)"
    by simp
  from sendMessage_tape_less [OF a] extractTokenAmounts_tape [OF b]
  show ?case
    by (simp add: setTimeout_def)
qed

declare bridgePoll.simps [simp del]

text \<open>The closure handed to \<^verbatim>\<open>retryWithBackoff\<close>: the loop and what follows it.\<close>

definition bridgeOperation :: "(string \<Rightarrow> bool) \<Rightarrow> nat \<Rightarrow> bool action" where
  "bridgeOperation parseFloat_positive startTime s =
     (case bridgePoll parseFloat_positive startTime s of
        (Inl e, s') \<Rightarrow> (Inl e, s')
      | (Inr (Some b), s') \<Rightarrow> (Inr b, s')
      | (Inr None, s') \<Rightarrow>
          if \<not> hasBalance s' then (Inl (Error ''Bridge confirmation timed out''), s')
          else (Inr True, s'))"

definition MultiChain_handleBridgeConfirmation :: "(string \<Rightarrow> bool) \<Rightarrow> unit action" where
  "MultiChain_handleBridgeConfirmation parseFloat_positive s =
     andThen (Base_retryWithBackoff (bridgeOperation parseFloat_positive (clock s)))
       (abortUnless ''wait-for-chain-b-confirmation'')
       (s\<lparr>checkInterval := BRIDGE_INITIAL_CHECK_INTERVAL_MS, hasBalance := False\<rparr>)"

section \<open>The service's own confirm-intent step (ChromaService.handleIntent, services/index.ts)\<close>






text \<open>How the \<^verbatim>\<open>try\<close> block of the retry ends: by its \<^verbatim>\<open>return\<close>, or past its end.\<close>

datatype tried = Returned state | Fell state | Unanswered


section \<open>Predicates used in the statements\<close>



text \<open>
  A reading of the balance that does not end the wait: the extraction failed (the code
  catches that), nothing is left of the amount once cleaned, or it is not above zero.
\<close>

definition no_balance :: "(string \<Rightarrow> bool) \<Rightarrow> ext \<Rightarrow> bool" where
  "no_balance parseFloat_positive x =
     (case x of
        XAmounts t a \<Rightarrow> clean_amount t = [] \<or> \<not> parseFloat_positive (clean_amount t)
      | _ \<Rightarrow> True)"


section \<open>Example inputs\<close>

definition idle :: state where
  "idle = \<lparr>goal = \<lparr>gid = None, gname = [], gstatus = IN_PROGRESS, objectives = []\<rparr>,
     service = \<lparr>processingGoals = {}, goalResponses = Map.empty, cryptoGoalCache = Map.empty\<rparr>,
     handlerState = (\<lambda>h. \<lparr>processingGoals = {}, goalResponses = Map.empty, cryptoGoalCache = Map.empty\<rparr>),
     tape = [], clock = 0, sleeps = [], sent = [], db = [], broadcasts = [],
     checkInterval = 0, hasBalance = False\<rparr>"

definition always_throws :: "unit action" where
  "always_throws = (\<lambda>s. (Inl (Error ''unreachable host''), s))"

definition failing_abort :: "unit action" where
  "failing_abort = (\<lambda>s. (Inl (Error ''goal store unavailable''), s))"

definition quiet_abort :: "unit action" where
  "quiet_abort = (\<lambda>s. (Inr (), s\<lparr>hasBalance := False\<rparr>))"

definition swap_goal :: Goal where
  "swap_goal = \<lparr>gid = Some ''goal-1'', gname = ''Swap 1 ETH to USDC'', gstatus = IN_PROGRESS,
     objectives = [\<lparr>oid = ''introduce-agent'', description = ''Introduce'', completed = False,
                    ostatus = None\<rparr>]\<rparr>"

definition bare_proposal :: TransactionProposal where
  "bare_proposal = \<lparr>chainId = None, proposalFromChain = None, transactions = None,
     transaction = None\<rparr>"

definition mk_objective :: "string \<Rightarrow> bool \<Rightarrow> Objective" where
  "mk_objective i c = \<lparr>oid = i, description = i, completed = c, ostatus = None\<rparr>"

definition transfer_goal :: Goal where
  "transfer_goal = \<lparr>gid = Some ''goal-1'', gname = ''Transfer 1 ETH'', gstatus = IN_PROGRESS,
     objectives = [mk_objective ''introduce-agent'' True, mk_objective ''present-operation'' False,
                   mk_objective ''confirm-intent'' False, mk_objective ''process-proposal'' False]\<rparr>"

definition transfer_intent :: TransferIntent where
  "transfer_intent = \<lparr>itype = None, amount = Some ''1'', fromChain = Some ''ethereum'',
     recipientChain = Some ''ethereum'', fromToken = None, fromAddress = None\<rparr>"

definition intent_reply :: ChromaResponse where
  "intent_reply = \<lparr>rtext = ''Here is your intent'', intent = Some transfer_intent, proposals = None\<rparr>"

definition rejected_intent_state :: state where
  "rejected_intent_state = idle\<lparr>goal := transfer_goal, db := [transfer_goal],
     tape := [(50, XText (Some ''Transfer 1 ETH on ethereum'')),
              (200, XReplies [intent_reply]),
              (80, XDecision False ''wrong operation type''),
              (5, XDone)]\<rparr>"

definition evm_config :: config where
  "evm_config = \<lparr>CHROMA_EVM_CHAINS = Some ''sepolia'', evmAccount = Some ''0xA11CE'',
     solanaReady = False, CHROMA_EXAMPLE_MODE = False\<rparr>"

definition solana_only_config :: config where
  "solana_only_config = \<lparr>CHROMA_EVM_CHAINS = None, evmAccount = None,
     solanaReady = True, CHROMA_EXAMPLE_MODE = False\<rparr>"

definition signing_goal :: Goal where
  "signing_goal = \<lparr>gid = Some ''goal-1'', gname = ''Transfer 1 ETH'', gstatus = IN_PROGRESS,
     objectives = [mk_objective ''introduce-agent'' True, mk_objective ''present-operation'' True,
                   mk_objective ''confirm-intent'' True, mk_objective ''process-proposal'' False]\<rparr>"

definition proposal_reply :: ChromaResponse where
  "proposal_reply = \<lparr>rtext = ''Here is your proposal'', intent = None,
     proposals = Some [bare_proposal]\<rparr>"

definition signing_state :: state where
  "signing_state = idle\<lparr>goal := signing_goal, db := [signing_goal],
     handlerState := (\<lambda>h. \<lparr>processingGoals = {},
        goalResponses = [''goal-1'' \<mapsto> proposal_reply], cryptoGoalCache = Map.empty\<rparr>),
     tape := [(5, XDone), (5, XDone)]\<rparr>"

definition failing_confirm_tape :: "(nat \<times> ext) list" where
  "failing_confirm_tape =
     [(1, XBool True),
      (1, XText (Some ''Transfer 1 ETH on ethereum'')), (1, XReplies [intent_reply]),
      (1, XDecision True ''fine''), (1, XDone),
      (1, XReject (Error ''model offline'')),
      (1, XDone), (1, XDone), (1, XDone)]"

definition failing_confirm_state :: state where
  "failing_confirm_state = idle\<lparr>db := [transfer_goal], tape := failing_confirm_tape\<rparr>"

definition single_chain :: GoalHandler where
  "single_chain = SingleChainGoalHandler evm_config (\<lambda>blob. True) 0"

definition introduction_tape :: "(nat \<times> ext) list" where
  "introduction_tape =
     [(1, XDone), (1, XBool True),
      (1, XText (Some ''I need to swap on the ethereum chain, my address is 0xA11CE'')),
      (1, XReplies [\<lparr>rtext = ''What would you like to swap?'', intent = None, proposals = None\<rparr>]),
      (1, XDecision True ''asks for operation details''), (1, XDone),
      (1, XDone)]"

definition introduction_state :: state where
  "introduction_state = idle\<lparr>db := [swap_goal], tape := introduction_tape\<rparr>"

text \<open>
  An oracle for \<^verbatim>\<open>parseFloat(a) > 0\<close> that is right on plain decimals such as
  \<^verbatim>\<open>0\<close>, \<^verbatim>\<open>0.00\<close> and \<^verbatim>\<open>25.5\<close>: some digit is not zero.
\<close>

definition positive_decimal :: "string \<Rightarrow> bool" where
  "positive_decimal a = (filter (\<lambda>c. c \<in> set ''123456789'') a \<noteq> [])"

definition bridge_goal :: Goal where
  "bridge_goal = \<lparr>gid = Some ''g2'', gname = ''Bridge USDC and deposit'', gstatus = IN_PROGRESS,
     objectives = [mk_objective ''introduce-agent'' True, mk_objective ''bridge-operation'' True,
                   mk_objective ''wait-for-chain-b-confirmation'' False,
                   mk_objective ''deposit-operation'' False]\<rparr>"

definition bridge_state :: state where
  "bridge_state = idle\<lparr>goal := bridge_goal, db := [bridge_goal],
     tape := [(300, XReplies []), (200, XAmounts ''0'' ''0''),
              (300, XReplies []), (200, XAmounts ''0.00'' ''0''),
              (300, XReplies []), (200, XReject (Error ''model overloaded'')),
              (300, XReplies []), (200, XAmounts ''25.5 USDC'' ''0''),
              (50, XDone)]\<rparr>"

definition stalled_bridge_state :: state where
  "stalled_bridge_state = idle\<lparr>goal := bridge_goal, db := [bridge_goal],
     tape := [(2400000, XReplies []), (200, XAmounts ''0'' ''0''), (50, XDone)]\<rparr>"




section \<open>Properties of retryWithBackoff\<close>

declare retryWithBackoff.simps [simp del]
declare ChromaService_retryWithBackoff.simps [simp del]

lemma retry_exhausted:
  "maxRetries options \<le> currentAttempt options \<Longrightarrow>
   retryWithBackoff operation options None s = (Inr None, s)"
  by (simp add: retryWithBackoff.simps)

lemma retry_success:
  "currentAttempt options < maxRetries options \<Longrightarrow> operation s = (Inr v, s') \<Longrightarrow>
   retryWithBackoff operation options onAbort s = (Inr (Some v), s')"
  by (simp add: retryWithBackoff.simps)

lemma retry_failure:
  "currentAttempt options < maxRetries options \<Longrightarrow> operation s = (Inl e, s') \<Longrightarrow>
   retryWithBackoff operation options onAbort s =
     retryWithBackoff operation (options\<lparr>currentAttempt := currentAttempt options + 1\<rparr>) onAbort
       (setTimeout (RETRY_DELAY_MS * 2 ^ currentAttempt options) s')"
  by (simp add: retryWithBackoff.simps)

lemma ChromaService_retry_is_retry:
  "ChromaService_retryWithBackoff operation options s = retryWithBackoff operation options None s"
proof (induction operation options s rule: ChromaService_retryWithBackoff.induct)
  case (1 operation options s)
  show ?case
  proof (cases "maxRetries options \<le> currentAttempt options")
    case True
    then show ?thesis
      by (simp add: retryWithBackoff.simps ChromaService_retryWithBackoff.simps)
  next
    case False
    obtain r s' where op: "operation s = (r, s')"
      by (cases "operation s")
    show ?thesis
    proof (cases r)
      case (Inl e)
      with 1 False op show ?thesis
        by (subst ChromaService_retryWithBackoff.simps, subst retryWithBackoff.simps)
           (simp add: RETRY_DELAY_MS_def)
    next
      case (Inr v)
      with False op show ?thesis
        by (simp add: retryWithBackoff.simps ChromaService_retryWithBackoff.simps)
    qed
  qed
qed

lemma always_fails_step:
  assumes "\<forall>s. isl (fst (operation s))"
  shows "\<exists>e s'. operation s = (Inl e, s')"
proof -
  from assms have "isl (fst (operation s))" by blast
  then show ?thesis by (cases "operation s") (auto simp: isl_def)
qed

lemma clock_setTimeout: "clock (setTimeout ms s) = clock s + ms"
  by (simp add: setTimeout_def)

text \<open>
  C3.  An operation that fails on every invocation, retried with \<open>maxRetries = 3\<close>: the
  operation runs exactly three times, 1000, 2000 and 4000 ms are slept after the
  attempts 0, 1 and 2 (\<open>1000 * 2 ^ attempt\<close>), and the result is \<^verbatim>\<open>null\<close>.  The same
  holds for the service's own copy.  When the operation never turns the clock back, at
  least 3000 ms have passed.
\<close>

theorem retryWithBackoff_always_failing:
  assumes fails: "\<forall>s. isl (fst (operation s))"
  shows "\<exists>e1 s1 e2 s2 e3 s3.
      operation s = (Inl e1, s1) \<and>
      operation (setTimeout (1000 * 2 ^ 0) s1) = (Inl e2, s2) \<and>
      operation (setTimeout (1000 * 2 ^ 1) s2) = (Inl e3, s3) \<and>
      retryWithBackoff operation \<lparr>maxRetries = 3, currentAttempt = 0\<rparr> None s
        = (Inr None, setTimeout (1000 * 2 ^ 2) s3) \<and>
      ChromaService_retryWithBackoff operation \<lparr>maxRetries = 3, currentAttempt = 0\<rparr> s
        = (Inr None, setTimeout (1000 * 2 ^ 2) s3) \<and>
      ((\<forall>s. clock s \<le> clock (snd (operation s))) \<longrightarrow>
         clock s + 3000 \<le> clock (setTimeout (1000 * 2 ^ 2) s3))"
proof -
  obtain e1 s1 where a1: "operation s = (Inl e1, s1)"
    using always_fails_step [OF fails] by blast
  obtain e2 s2 where a2: "operation (setTimeout 1000 s1) = (Inl e2, s2)"
    using always_fails_step [OF fails] by blast
  obtain e3 s3 where a3: "operation (setTimeout 2000 s2) = (Inl e3, s3)"
    using always_fails_step [OF fails] by blast
  have r3: "retryWithBackoff operation \<lparr>maxRetries = 3, currentAttempt = Suc (Suc (Suc 0))\<rparr> None
              (setTimeout 4000 s3) = (Inr None, setTimeout 4000 s3)"
    by (rule retry_exhausted) simp
  have r2: "retryWithBackoff operation \<lparr>maxRetries = 3, currentAttempt = Suc (Suc 0)\<rparr> None
              (setTimeout 2000 s2) = (Inr None, setTimeout 4000 s3)"
    using retry_failure [of "\<lparr>maxRetries = 3, currentAttempt = Suc (Suc 0)\<rparr>" operation
        "setTimeout 2000 s2" e3 s3 None] a3 r3
    by (simp add: RETRY_DELAY_MS_def)
  have r1: "retryWithBackoff operation \<lparr>maxRetries = 3, currentAttempt = Suc 0\<rparr> None
              (setTimeout 1000 s1) = (Inr None, setTimeout 4000 s3)"
    using retry_failure [of "\<lparr>maxRetries = 3, currentAttempt = Suc 0\<rparr>" operation
        "setTimeout 1000 s1" e2 s2 None] a2 r2
    by (simp add: RETRY_DELAY_MS_def)
  have r0: "retryWithBackoff operation \<lparr>maxRetries = 3, currentAttempt = 0\<rparr> None s
              = (Inr None, setTimeout 4000 s3)"
    using retry_failure [of "\<lparr>maxRetries = 3, currentAttempt = 0\<rparr>" operation s e1 s1 None] a1 r1
    by (simp add: RETRY_DELAY_MS_def)
  have t: "clock s + 3000 \<le> clock (setTimeout 4000 s3)"
    if mono: "\<forall>s. clock s \<le> clock (snd (operation s))"
  proof -
    have "clock s \<le> clock s1" using mono [rule_format, of s] a1 by simp
    moreover have "clock (setTimeout 1000 s1) \<le> clock s2"
      using mono [rule_format, of "setTimeout 1000 s1"] a2 by simp
    moreover have "clock (setTimeout 2000 s2) \<le> clock s3"
      using mono [rule_format, of "setTimeout 2000 s2"] a3 by simp
    ultimately show ?thesis by (simp add: clock_setTimeout)
  qed
  show ?thesis
    using a1 a2 a3 r0 t by (auto simp: ChromaService_retry_is_retry)
qed

theorem retryWithBackoff_always_failing_witness:
  "(\<forall>s. isl (fst (always_throws s))) \<and>
   retryWithBackoff always_throws \<lparr>maxRetries = 3, currentAttempt = 0\<rparr> None idle
     = (Inr None, idle\<lparr>clock := 7000, sleeps := [1000, 2000, 4000]\<rparr>) \<and>
   clock idle + 3000 \<le> clock (idle\<lparr>clock := 7000, sleeps := [1000, 2000, 4000]\<rparr>)"
proof -
  have f: "\<forall>s. isl (fst (always_throws s))"
    by (simp add: always_throws_def)
  from retryWithBackoff_always_failing [OF f, of idle]
  show ?thesis
    using f by (auto simp: always_throws_def setTimeout_def idle_def)
qed

lemma retry_outcome:
  "(case retryWithBackoff operation options onAbort s of
      (Inr (Some v), s') \<Rightarrow> (\<exists>s0. operation s0 = (Inr v, s'))
    | (Inr None, s') \<Rightarrow> (case onAbort of None \<Rightarrow> True | Some f \<Rightarrow> (\<exists>s0. f s0 = (Inr (), s')))
    | (Inl e, s') \<Rightarrow> (\<exists>f s0. onAbort = Some f \<and> f s0 = (Inl e, s')))"
proof (induction operation options onAbort s rule: retryWithBackoff.induct)
  case (1 operation options onAbort s)
  show ?case
  proof (cases "maxRetries options \<le> currentAttempt options")
    case True
    then show ?thesis
      by (subst retryWithBackoff.simps)
         (auto split: option.splits prod.splits sum.splits)
  next
    case False
    show ?thesis
    proof (cases "operation s")
      case (Pair r s')
      show ?thesis
      proof (cases r)
        case (Inl e)
        with 1 False Pair show ?thesis
          by (subst retryWithBackoff.simps) simp
      next
        case (Inr v)
        with False Pair show ?thesis
          by (subst retryWithBackoff.simps) auto
      qed
    qed
  qed
qed

lemma retry_all_fail:
  "\<forall>s. isl (fst (operation s)) \<Longrightarrow>
   \<exists>s0. retryWithBackoff operation options onAbort s =
           (case onAbort of
              None \<Rightarrow> (Inr None, s0)
            | Some f \<Rightarrow> (case f s0 of (Inl e, s') \<Rightarrow> (Inl e, s') | (Inr _, s') \<Rightarrow> (Inr None, s')))"
proof (induction operation options onAbort s rule: retryWithBackoff.induct)
  case (1 operation options onAbort s)
  show ?case
  proof (cases "maxRetries options \<le> currentAttempt options")
    case True
    then show ?thesis
      by (subst retryWithBackoff.simps) (auto split: option.splits)
  next
    case False
    obtain e s' where op: "operation s = (Inl e, s')"
      using always_fails_step [OF "1.prems"] by blast
    from "1.IH" [OF _ op [symmetric] refl] False "1.prems"
    have "\<exists>s0. retryWithBackoff operation (options\<lparr>currentAttempt := currentAttempt options + 1\<rparr>)
             onAbort (setTimeout (RETRY_DELAY_MS * 2 ^ currentAttempt options) s') =
           (case onAbort of
              None \<Rightarrow> (Inr None, s0)
            | Some f \<Rightarrow> (case f s0 of (Inl e, s') \<Rightarrow> (Inl e, s') | (Inr _, s') \<Rightarrow> (Inr None, s')))"
      by simp
    with False op show ?thesis
      by (subst retryWithBackoff.simps) simp
  qed
qed

text \<open>
  C4, as stated, fails: the callback is awaited outside the \<^verbatim>\<open>try\<close>, so when every
  attempt has failed and the callback itself rejects, that rejection reaches the caller.
\<close>

theorem retryWithBackoff_onAbort_counterexample:
  "fst (retryWithBackoff always_throws \<lparr>maxRetries = 3, currentAttempt = 0\<rparr>
          (Some failing_abort) idle) = Inl (Error ''goal store unavailable'')"
  by (simp add: retryWithBackoff.simps always_throws_def failing_abort_def)

text \<open>
  C4, amended.  No error thrown by the operation reaches the caller: an exception that
  leaves \<open>retryWithBackoff\<close> was thrown by the \<open>onAbort\<close> callback.  A returned value is
  the operation's own result, returned in the state that attempt left (nothing runs
  after the first success), and a first attempt that succeeds is returned at once.
  \<^verbatim>\<open>null\<close> is returned only after the callback, when one was supplied, has completed;
  and when every attempt fails, the callback (when supplied) is invoked and the result
  is \<^verbatim>\<open>null\<close> unless the callback throws.
\<close>

theorem retryWithBackoff_swallows_operation_errors:
  "(case retryWithBackoff operation options onAbort s of
      (Inr (Some v), s') \<Rightarrow> (\<exists>s0. operation s0 = (Inr v, s'))
    | (Inr None, s') \<Rightarrow> (case onAbort of None \<Rightarrow> True | Some f \<Rightarrow> (\<exists>s0. f s0 = (Inr (), s')))
    | (Inl e, s') \<Rightarrow> (\<exists>f s0. onAbort = Some f \<and> f s0 = (Inl e, s'))) \<and>
   (\<forall>v s'. currentAttempt options < maxRetries options \<and> operation s = (Inr v, s') \<longrightarrow>
      retryWithBackoff operation options onAbort s = (Inr (Some v), s')) \<and>
   ((\<forall>s. isl (fst (operation s))) \<longrightarrow>
      (\<exists>s0. retryWithBackoff operation options onAbort s =
         (case onAbort of
            None \<Rightarrow> (Inr None, s0)
          | Some f \<Rightarrow> (case f s0 of (Inl e, s') \<Rightarrow> (Inl e, s') | (Inr _, s') \<Rightarrow> (Inr None, s')))))"
  using retry_outcome [where operation = operation and options = options and onAbort = onAbort and s = s]
    retry_all_fail [where operation = operation and options = options and onAbort = onAbort and s = s]
  by (auto simp: retry_success)

theorem retryWithBackoff_swallows_operation_errors_witness:
  "currentAttempt \<lparr>maxRetries = 3, currentAttempt = 0\<rparr> < maxRetries \<lparr>maxRetries = 3, currentAttempt = 0\<rparr> \<and>
   ret (5::nat) idle = (Inr 5, idle) \<and>
   retryWithBackoff (ret (5::nat)) \<lparr>maxRetries = 3, currentAttempt = 0\<rparr> (Some failing_abort) idle
     = (Inr (Some 5), idle) \<and>
   (\<forall>s. isl (fst (always_throws s))) \<and>
   fst (retryWithBackoff always_throws \<lparr>maxRetries = 3, currentAttempt = 0\<rparr> (Some quiet_abort) idle)
     = Inr None"
proof -
  have a: "ret (5::nat) idle = (Inr 5, idle)"
    by (simp add: ret_def)
  have f: "\<forall>s. isl (fst (always_throws s))"
    by (simp add: always_throws_def)
  from retryWithBackoff_swallows_operation_errors
         [where operation = "ret (5::nat)" and options = "\<lparr>maxRetries = 3, currentAttempt = 0\<rparr>"
            and onAbort = "Some failing_abort" and s = idle]
  have b: "retryWithBackoff (ret (5::nat)) \<lparr>maxRetries = 3, currentAttempt = 0\<rparr>
             (Some failing_abort) idle = (Inr (Some 5), idle)"
    using a by simp
  from retryWithBackoff_swallows_operation_errors
         [where operation = always_throws and options = "\<lparr>maxRetries = 3, currentAttempt = 0\<rparr>"
            and onAbort = "Some quiet_abort" and s = idle]
  have c: "fst (retryWithBackoff always_throws \<lparr>maxRetries = 3, currentAttempt = 0\<rparr>
             (Some quiet_abort) idle) = Inr None"
    using f by (auto simp: quiet_abort_def)
  show ?thesis using a b c f by simp
qed

section \<open>Properties of isCryptoGoal\<close>

text \<open>
  C9.  Once \<open>isCryptoGoal\<close> has returned for a goal, every later call for that goal on
  the same cache returns the same answer and leaves the whole state as it was: the tape
  is not read, so the language model is not asked again.  Since the state is unchanged,
  the cache is still the same for the call after that one.
\<close>

theorem isCryptoGoal_memoized:
  assumes "isCryptoGoal g s = (Inr r, s1)"
      and "cryptoGoalCache (service s2) = cryptoGoalCache (service s1)"
  shows "isCryptoGoal g s2 = (Inr r, s2)"
  using assms
  by (auto simp: isCryptoGoal_def set_cryptoGoalCache_def
           split: option.splits if_splits prod.splits sum.splits)

theorem isCryptoGoal_memoized_witness:
  "\<exists>s1. isCryptoGoal swap_goal (idle\<lparr>tape := [(120, XBool True)]\<rparr>) = (Inr (Some True), s1) \<and>
         tape s1 = [] \<and>
         cryptoGoalCache (service s1) ''goal-1'' = Some (Some True) \<and>
         isCryptoGoal swap_goal s1 = (Inr (Some True), s1)"
proof -
  obtain s1 where a: "isCryptoGoal swap_goal (idle\<lparr>tape := [(120, XBool True)]\<rparr>) = (Inr (Some True), s1)"
    and b: "tape s1 = []" and c: "cryptoGoalCache (service s1) ''goal-1'' = Some (Some True)"
    by (simp add: isCryptoGoal_def swap_goal_def idle_def set_cryptoGoalCache_def
        generateTrueOrFalse_def andThen_def external_def ret_def)
  have "isCryptoGoal swap_goal s1 = (Inr (Some True), s1)"
    by (rule isCryptoGoal_memoized [OF a refl])
  with a b c show ?thesis by blast
qed

section \<open>Properties of the signer routing\<close>

text \<open>
  C1, as stated, fails: a proposal with neither a \<^verbatim>\<open>transaction\<close> nor a
  \<^verbatim>\<open>transactions\<close> property is routed to the EVM handler; no error is raised.
\<close>

theorem getSignatureHandler_neither_counterexample:
  "getSignatureHandler signatureHandlers bare_proposal = Inr EVMSignatureHandler"
  by (simp add: getSignatureHandler_def signatureHandlers_def supportsChain_def
      EVM_supportsChain_def bare_proposal_def)

text \<open>
  C1, amended.  With the two registered handlers the routing always selects one: the
  Solana handler when the proposal's \<^verbatim>\<open>transaction\<close> holds a non-empty
  \<^verbatim>\<open>serializedTransaction\<close>, and the EVM handler in every other case (a
  \<^verbatim>\<open>transactions\<close> array, neither property, or an empty serialized blob).
\<close>

theorem getSignatureHandler_routing:
  "getSignatureHandler signatureHandlers proposal =
     Inr (case transaction proposal of
            None \<Rightarrow> EVMSignatureHandler
          | Some tx \<Rightarrow>
              (case serializedTransaction tx of
                 None \<Rightarrow> EVMSignatureHandler
               | Some blob \<Rightarrow> if blob = [] then EVMSignatureHandler else SolanaSignatureHandler))"
  by (simp add: getSignatureHandler_def signatureHandlers_def supportsChain_def
      EVM_supportsChain_def Solana_supportsChain_def truthy_string_def split: option.splits)

section \<open>Properties of the present-operation step\<close>

lemmas monad_defs = andThen_def tryCatch_def ret_def throw_def modify_def unexpected_def external_def

text \<open>
  C2 does not hold of the code.  \<open>validateOperationResponse\<close> returns an object, and
  \<^verbatim>\<open>if (!isValidIntent)\<close> tests the object, not its \<^verbatim>\<open>isValid\<close> property: for a reply
  whose intent the validator rejects, the step still stores the reply and completes the
  objective at the first attempt, without a retry.
\<close>

theorem handleOperation_ignores_rejection:
  "fst (validateOperationResponse intent_reply
          (idle\<lparr>tape := [(80, XDecision False ''wrong operation type'')]\<rparr>))
     = Inr \<lparr>isValid = False, reason = ''wrong operation type''\<rparr> \<and>
   (case SingleChain_handleOperation 0 rejected_intent_state of
      (r, s') \<Rightarrow> r = Inr () \<and>
         getObjectiveStatus (goal s') ''present-operation'' = COMPLETED \<and>
         map (\<lambda>g. getObjectiveStatus g ''present-operation'') (db s') = [COMPLETED] \<and>
         goalResponses (handlerState s' 0) ''goal-1'' = Some intent_reply \<and>
         sleeps s' = [] \<and> tape s' = [])"
proof -
  have a: "fst (validateOperationResponse intent_reply
                  (idle\<lparr>tape := [(80, XDecision False ''wrong operation type'')]\<rparr>))
             = Inr \<lparr>isValid = False, reason = ''wrong operation type''\<rparr>"
    by (simp add: validateOperationResponse_def bridge_fast_path_def withdraw_fast_path_def
        intent_reply_def transfer_intent_def generateDecision_def monad_defs idle_def
        truthy_string_def)
  have b: "(case SingleChain_handleOperation 0 rejected_intent_state of
      (r, s') \<Rightarrow> r = Inr () \<and>
         getObjectiveStatus (goal s') ''present-operation'' = COMPLETED \<and>
         map (\<lambda>g. getObjectiveStatus g ''present-operation'') (db s') = [COMPLETED] \<and>
         goalResponses (handlerState s' 0) ''goal-1'' = Some intent_reply \<and>
         sleeps s' = [] \<and> tape s' = [])"
    by (simp add: SingleChain_handleOperation_def Base_retryWithBackoff_def retryWithBackoff.simps
        MAX_RETRIES_def rejected_intent_state_def idle_def transfer_goal_def mk_objective_def
        generateText_def sendMessage_def js_string_def truthy_string_def truthy_object_def
        validateOperationResponse_def bridge_fast_path_def withdraw_fast_path_def
        intent_reply_def transfer_intent_def generateDecision_def monad_defs
        storeResponse_def map_handlerState_def completeObjective_def updateGoal_def
        abortUnless_def falsy_result_def getObjectiveStatus_def)
  from a b show ?thesis by simp
qed

section \<open>Properties of signing an empty proposal\<close>

lemma ensureChainId_transactions: "transactions (ensureChainId p) = transactions p"
  by (simp add: ensureChainId_def split: option.splits)

lemma EVM_signProposal_empty:
  assumes "EVM_getAccount cfg = Inr address"
      and "transactions proposal = None \<or> transactions proposal = Some []"
  shows "EVM_signProposal cfg proposal s = (Inr (Signatures []), s)"
  using assms by (auto simp: EVM_signProposal_def ret_def)

lemma signProposal_empty:
  assumes "EVM_getAccount cfg = Inr address"
      and "transactions proposal = None \<or> transactions proposal = Some []"
      and "getSignatureHandler signatureHandlers proposal = Inr EVMSignatureHandler"
  shows "signProposal cfg deserializes proposal s = (Inr (Signatures []), s)"
  using assms EVM_signProposal_empty [of cfg address "ensureChainId proposal" s]
  by (simp add: signProposal_def ensureChainId_transactions)

lemma getLatestResponse_Some:
  "getLatestResponse h s = Some r \<Longrightarrow>
   \<exists>i. gid (goal s) = Some i \<and> i \<noteq> [] \<and> goalResponses (handlerState s h) i = Some r"
  by (auto simp: getLatestResponse_def split: option.splits if_splits)

lemma completeObjective_done:
  assumes "find_first (\<lambda>obj. oid obj = objectiveId) (objectives (goal s)) \<noteq> None"
      and "tape s = (d, XDone) # rest"
  shows "completeObjective objectiveId s =
           (Inr (), s\<lparr>goal := completed_goal objectiveId (goal s), tape := rest, clock := clock s + d,
                       db := map (\<lambda>g'. if gid g' = gid (goal s) then completed_goal objectiveId (goal s) else g') (db s)\<rparr>)"
  using assms
  by (auto simp: completeObjective_def updateGoal_def monad_defs completed_goal_def Let_def
      split: option.splits)

lemma find_first_update_first:
  "find_first P xs = Some x \<Longrightarrow> (\<And>y. P y \<Longrightarrow> P (f y)) \<Longrightarrow>
   find_first P (update_first P f xs) = Some (f x)"
  by (induction xs) (auto split: if_splits)

lemma getObjectiveStatus_completed:
  assumes "find_first (\<lambda>obj. oid obj = objectiveId) (objectives g) \<noteq> None"
  shows "getObjectiveStatus (completed_goal objectiveId g) objectiveId = COMPLETED"
proof -
  from assms obtain x where x: "find_first (\<lambda>obj. oid obj = objectiveId) (objectives g) = Some x"
    by blast
  have "find_first (\<lambda>obj. oid obj = objectiveId)
          (update_first (\<lambda>obj. oid obj = objectiveId) (\<lambda>obj. obj\<lparr>completed := True\<rparr>) (objectives g))
        = Some (x\<lparr>completed := True\<rparr>)"
    by (rule find_first_update_first [OF x]) simp
  then show ?thesis
    by (simp add: getObjectiveStatus_def completed_goal_def)
qed

text \<open>
  C10, as stated, fails: \<^verbatim>\<open>signProposal\<close> awaits \<^verbatim>\<open>getAccount('evm')\<close> before it looks
  at the transactions, so on a handler without \<^verbatim>\<open>CHROMA_EVM_CHAINS\<close> (or without an
  account) an empty proposal raises.
\<close>

theorem EVM_signProposal_empty_counterexample:
  "fst (EVM_signProposal solana_only_config bare_proposal idle)
     = Inl (Error ''CHROMA_EVM_CHAINS not configured'')"
  by (simp add: EVM_signProposal_def EVM_getAccount_def solana_only_config_def truthy_string_def
      throw_def)

text \<open>
  C10, amended.  When the EVM account is available, \<^verbatim>\<open>signProposal\<close> of a proposal with
  no or an empty \<^verbatim>\<open>transactions\<close> list returns the empty list and changes nothing.  In
  the process-proposal step, for such a proposal routed to the EVM handler (the first
  of the stored reply), with the objective present and the two store writes accepted,
  the step returns at the first attempt, the objective is completed, the stored goal
  is the completed one with status \<open>DONE\<close>, the stored reply is dropped, and nothing is
  broadcast or slept.
\<close>

theorem empty_proposal_is_signed:
  assumes acct: "EVM_getAccount cfg = Inr address"
      and empty: "transactions proposal = None \<or> transactions proposal = Some []"
      and evm: "getSignatureHandler signatureHandlers proposal = Inr EVMSignatureHandler"
      and stored: "getLatestResponse h s = Some r"
      and first: "proposals r = Some (proposal # others)"
      and obj: "find_first (\<lambda>obj. oid obj = ''process-proposal'') (objectives (goal s)) \<noteq> None"
      and tape: "tape s = (d1, XDone) # (d2, XDone) # rest"
  shows "EVM_signProposal cfg (ensureChainId proposal) s = (Inr (Signatures []), s) \<and>
         (\<exists>s'. SingleChain_handleProposal cfg deserializes h s = (Inr (), s') \<and>
            getObjectiveStatus (goal s') ''process-proposal'' = COMPLETED \<and>
            db s' = map (\<lambda>g. if gid g = gid (goal s)
                              then (completed_goal ''process-proposal'' (goal s))\<lparr>gstatus := DONE\<rparr>
                              else g) (db s) \<and>
            getLatestResponse h s' = None \<and>
            broadcasts s' = broadcasts s \<and> sleeps s' = sleeps s \<and> tape s' = rest)"
proof -
  from getLatestResponse_Some [OF stored] obtain i
    where i: "gid (goal s) = Some i" "i \<noteq> []" by blast
  let ?s1 = "s\<lparr>goal := completed_goal ''process-proposal'' (goal s), tape := (d2, XDone) # rest,
               clock := clock s + d1,
               db := map (\<lambda>g'. if gid g' = gid (goal s) then completed_goal ''process-proposal'' (goal s) else g') (db s)\<rparr>"
  have c1: "completeObjective ''process-proposal'' s = (Inr (), ?s1)"
    using completeObjective_done [OF obj tape] by simp
  obtain s2 where c2: "completeGoal h ?s1 = (Inr (), s2)"
    and g2: "goal s2 = completed_goal ''process-proposal'' (goal s)"
    and d2: "db s2 = map (\<lambda>g. if gid g = gid (goal s)
                              then (completed_goal ''process-proposal'' (goal s))\<lparr>gstatus := DONE\<rparr>
                              else g) (db s)"
    and b2: "broadcasts s2 = broadcasts s" "sleeps s2 = sleeps s" "tape s2 = rest"
    and r2: "getLatestResponse h s2 = None"
    using i
    by (auto simp: completeGoal_def updateGoalStatus_def monad_defs map_handlerState_def
        completed_goal_def getLatestResponse_def o_def cong: if_cong)
  let ?op = "andThen (case proposal # others of
                [] \<Rightarrow> throw (TypeError ''Cannot read properties of undefined'')
              | p # _ \<Rightarrow> signProposal cfg deserializes p) (\<lambda>result.
             andThen (completeObjective ''process-proposal'') (\<lambda>_.
             andThen (completeGoal h) (\<lambda>_. ret True)))"
  have op: "?op s = (Inr True, s2)"
    using signProposal_empty [OF acct empty evm, of deserializes s] c1 c2
    by (simp add: andThen_def ret_def)
  have "retryWithBackoff ?op \<lparr>maxRetries = MAX_RETRIES, currentAttempt = 0\<rparr> None s
          = (Inr (Some True), s2)"
    by (rule retry_success [where operation = ?op and s = s, OF _ op]) (simp add: MAX_RETRIES_def)
  then have "SingleChain_handleProposal cfg deserializes h s = (Inr (), s2)"
    using stored first
    by (simp add: SingleChain_handleProposal_def Base_retryWithBackoff_def
        andThen_def abortUnless_def falsy_result_def ret_def)
  moreover have "getObjectiveStatus (goal s2) ''process-proposal'' = COMPLETED"
    using g2 getObjectiveStatus_completed [OF obj] by simp
  moreover have "EVM_signProposal cfg (ensureChainId proposal) s = (Inr (Signatures []), s)"
    using EVM_signProposal_empty [OF acct, of "ensureChainId proposal" s] empty
    by (simp add: ensureChainId_transactions)
  ultimately show ?thesis
    using d2 b2 r2 by blast
qed

theorem empty_proposal_is_signed_witness:
  "EVM_getAccount evm_config = Inr ''0xA11CE'' \<and>
   transactions bare_proposal = None \<and>
   getSignatureHandler signatureHandlers bare_proposal = Inr EVMSignatureHandler \<and>
   getLatestResponse 0 signing_state = Some proposal_reply \<and>
   proposals proposal_reply = Some (bare_proposal # []) \<and>
   find_first (\<lambda>obj. oid obj = ''process-proposal'') (objectives (goal signing_state)) \<noteq> None \<and>
   tape signing_state = (5, XDone) # (5, XDone) # [] \<and>
   (\<exists>s'. SingleChain_handleProposal evm_config (\<lambda>blob. True) 0 signing_state = (Inr (), s') \<and>
      getObjectiveStatus (goal s') ''process-proposal'' = COMPLETED \<and>
      map gstatus (db s') = [DONE] \<and> broadcasts s' = [] \<and> tape s' = [])"
proof -
  have a: "EVM_getAccount evm_config = Inr ''0xA11CE''"
    by (simp add: EVM_getAccount_def evm_config_def truthy_string_def)
  have b: "transactions bare_proposal = None \<or> transactions bare_proposal = Some []"
    by (simp add: bare_proposal_def)
  have c: "getSignatureHandler signatureHandlers bare_proposal = Inr EVMSignatureHandler"
    by (simp add: getSignatureHandler_def signatureHandlers_def supportsChain_def
        EVM_supportsChain_def bare_proposal_def)
  have d: "getLatestResponse 0 signing_state = Some proposal_reply"
    by (simp add: getLatestResponse_def signing_state_def signing_goal_def idle_def)
  have e: "proposals proposal_reply = Some (bare_proposal # [])"
    by (simp add: proposal_reply_def)
  have f: "find_first (\<lambda>obj. oid obj = ''process-proposal'') (objectives (goal signing_state)) \<noteq> None"
    by (simp add: signing_state_def signing_goal_def mk_objective_def idle_def)
  have g: "tape signing_state = (5, XDone) # (5, XDone) # []"
    by (simp add: signing_state_def idle_def)
  from empty_proposal_is_signed [OF a b c d e f g, of "\<lambda>blob. True"]
  obtain s' where s': "SingleChain_handleProposal evm_config (\<lambda>blob. True) 0 signing_state = (Inr (), s')"
      "getObjectiveStatus (goal s') ''process-proposal'' = COMPLETED"
      "db s' = map (\<lambda>g. if gid g = gid (goal signing_state)
                        then (completed_goal ''process-proposal'' (goal signing_state))\<lparr>gstatus := DONE\<rparr>
                        else g) (db signing_state)"
      "broadcasts s' = broadcasts signing_state" "tape s' = []"
    by blast
  have "map gstatus (db s') = [DONE]"
    using s'(3) by (simp add: signing_state_def signing_goal_def idle_def)
  moreover have "broadcasts s' = []"
    using s'(4) by (simp add: signing_state_def idle_def)
  ultimately show ?thesis
    using a c d e f g s'(1,2,5) by (auto simp: bare_proposal_def)
qed

section \<open>The goal's id is never reassigned\<close>










































section \<open>Properties of the scheduler\<close>

lemmas handler_defs =
  SingleChainGoalHandler_def SingleChain_supportsGoal_def SingleChain_step_def SingleChain_tryBlock_def
  SingleChain_handleIntroduction_def SingleChain_handleOperation_def SingleChain_handleIntent_def
  SingleChain_handleProposal_def Base_retryWithBackoff_def retryWithBackoff.simps MAX_RETRIES_def
  RETRY_DELAY_MS_def setTimeout_def
  generateText_def generateTrueOrFalse_def generateDecision_def sendMessage_def js_string_def
  truthy_string_def truthy_object_def
  validateOperationResponse_def validateIntroResponse_def bridge_fast_path_def withdraw_fast_path_def
  storeResponse_def map_handlerState_def completeObjective_def updateGoal_def updateGoalStatus_def
  getGoals_def completeGoal_def failGoal_def markAborted_def
  abortUnless_def falsy_result_def getObjectiveStatus_def getLatestResponse_def has_proposals_def
  processGoals_def isCryptoGoal_def set_cryptoGoalCache_def getHandlerForGoal_def
  clearProcessingState_def clearState_def clearGoalState_def

lemmas fixture_defs = failing_confirm_state_def failing_confirm_tape_def single_chain_def idle_def
  transfer_goal_def mk_objective_def intent_reply_def transfer_intent_def evm_config_def







lemma processGoals_skips_processing:
  "gid g = Some i \<Longrightarrow> i \<in> processingGoals (service s) \<Longrightarrow>
   processGoals_loop handlers fuel (g # goals) s = processGoals_loop handlers fuel goals s"
  by simp

text \<open>
  C7 does not hold of the code.  The goal's id is added to the processing set before
  the handler runs and deleted only in the \<^verbatim>\<open>catch\<close>.  Here the introduction of a
  one-objective goal succeeds in the first tick: the id is still in the set when the
  tick is over, the second tick skips the goal (nothing is sent), and the goal stays
  \<open>IN_PROGRESS\<close> with its only objective completed, whoever the other two registered
  handlers are.
\<close>

theorem processGoals_never_releases_goal:
  "\<forall>cdp multiChain.
    (case processGoals [single_chain, cdp, multiChain] (Suc (Suc (Suc 0))) introduction_state of
      None \<Rightarrow> False
    | Some (r, s1) \<Rightarrow>
        r = Inr () \<and> ''goal-1'' \<in> processingGoals (service s1) \<and>
        map gstatus (db s1) = [IN_PROGRESS] \<and> map (map completed \<circ> objectives) (db s1) = [[True]] \<and>
        length (sent s1) = 1 \<and>
        (case processGoals [single_chain, cdp, multiChain] (Suc (Suc (Suc 0))) s1 of
           None \<Rightarrow> False
         | Some (r2, s2) \<Rightarrow> r2 = Inr () \<and> sent s2 = sent s1 \<and> map gstatus (db s2) = [IN_PROGRESS] \<and>
             ''goal-1'' \<in> processingGoals (service s2) \<and> tape s2 = []))"
  by (simp add: Let_def handler_defs fixture_defs monad_defs introduction_state_def introduction_tape_def swap_goal_def)




section \<open>Properties of the bridge-confirmation wait\<close>

lemma sendMessage_reply:
  "tape s = (l, XReplies r) # rest \<Longrightarrow>
   sendMessage msg s = (Inr r, s\<lparr>sent := sent s @ [msg], tape := rest, clock := clock s + l\<rparr>)"
  by (simp add: sendMessage_def monad_defs)

lemma extract_no_balance:
  "tape s = (l, x) # rest \<Longrightarrow> no_balance p x \<Longrightarrow>
   extractTokenAmounts r s = (Inr None, s\<lparr>tape := rest, clock := clock s + l\<rparr>) \<or>
   (\<exists>a. extractTokenAmounts r s = (Inr (Some a), s\<lparr>tape := rest, clock := clock s + l\<rparr>) \<and> \<not> p a)"
  by (cases x) (auto simp: extractTokenAmounts_def generateAmounts_def monad_defs no_balance_def)

lemma extract_balance:
  "tape s = (l, XAmounts t a) # rest \<Longrightarrow> clean_amount t \<noteq> [] \<Longrightarrow>
   extractTokenAmounts r s = (Inr (Some (clean_amount t)), s\<lparr>tape := rest, clock := clock s + l\<rparr>)"
  by (simp add: extractTokenAmounts_def generateAmounts_def monad_defs)

lemma bridgePoll_round_empty:
  assumes time: "clock s - start < MAX_BRIDGE_WAIT_TIME_MS"
      and tape: "tape s = (l, XReplies r) # (l', x) # rest"
      and none: "no_balance p x"
  shows "bridgePoll p start s =
           bridgePoll p start
             (s\<lparr>sent := sent s @ [balanceQuery], tape := rest,
                clock := clock s + l + l' + checkInterval s,
                sleeps := sleeps s @ [checkInterval s],
                checkInterval := min (checkInterval s * 2) 60000\<rparr>)"
proof -
  let ?s1 = "s\<lparr>sent := sent s @ [balanceQuery], tape := (l', x) # rest, clock := clock s + l\<rparr>"
  let ?s2 = "?s1\<lparr>tape := rest, clock := clock ?s1 + l'\<rparr>"
  have a: "sendMessage balanceQuery s = (Inr r, ?s1)"
    using sendMessage_reply [OF tape] by simp
  have t1: "tape ?s1 = (l', x) # rest" by simp
  from extract_no_balance [OF t1 none, of r]
  have "\<exists>amt. extractTokenAmounts r ?s1 = (Inr amt, ?s2) \<and>
          \<not> (case amt of None \<Rightarrow> False | Some a \<Rightarrow> p a)"
    by auto
  then obtain amt where b: "extractTokenAmounts r ?s1 = (Inr amt, ?s2)"
    and c: "\<not> (case amt of None \<Rightarrow> False | Some a \<Rightarrow> p a)"
    by (elim exE conjE)
  show ?thesis
    by (subst bridgePoll.simps) (simp add: time a b c setTimeout_def add.assoc)
qed

lemma bridgePoll_round_balance:
  assumes time: "clock s - start < MAX_BRIDGE_WAIT_TIME_MS"
      and tape: "tape s = (l, XReplies r) # (l', XAmounts t a) # (l'', XDone) # rest"
      and pos: "clean_amount t \<noteq> []" "p (clean_amount t)"
      and obj: "find_first (\<lambda>obj. oid obj = ''wait-for-chain-b-confirmation'') (objectives (goal s)) \<noteq> None"
  shows "bridgePoll p start s =
           (Inr (Some True),
            s\<lparr>sent := sent s @ [balanceQuery], tape := rest, clock := clock s + l + l' + l'',
              hasBalance := True,
              goal := completed_goal ''wait-for-chain-b-confirmation'' (goal s),
              db := map (\<lambda>g'. if gid g' = gid (goal s)
                               then completed_goal ''wait-for-chain-b-confirmation'' (goal s) else g') (db s)\<rparr>)"
proof -
  let ?s1 = "s\<lparr>sent := sent s @ [balanceQuery], tape := (l', XAmounts t a) # (l'', XDone) # rest,
               clock := clock s + l\<rparr>"
  let ?s2 = "?s1\<lparr>tape := (l'', XDone) # rest, clock := clock ?s1 + l'\<rparr>"
  have a: "sendMessage balanceQuery s = (Inr r, ?s1)"
    using sendMessage_reply [OF tape] by simp
  have t1: "tape ?s1 = (l', XAmounts t a) # (l'', XDone) # rest" by simp
  have b: "extractTokenAmounts r ?s1 = (Inr (Some (clean_amount t)), ?s2)"
    using extract_balance [OF t1 pos(1)] by simp
  have o2: "find_first (\<lambda>obj. oid obj = ''wait-for-chain-b-confirmation'')
              (objectives (goal (?s2\<lparr>hasBalance := True\<rparr>))) \<noteq> None"
    using obj by simp
  have t2: "tape (?s2\<lparr>hasBalance := True\<rparr>) = (l'', XDone) # rest" by simp
  show ?thesis
    using obj
    by (subst bridgePoll.simps)
       (auto simp: time a b pos completeObjective_def updateGoal_def monad_defs
          completed_goal_def Let_def add.assoc split: option.splits)
qed

lemma bridgePoll_timed_out:
  "bridgePoll p start s = (Inr None, s') \<Longrightarrow>
   \<not> clock s' - start < MAX_BRIDGE_WAIT_TIME_MS \<and> hasBalance s' = hasBalance s \<and>
   goal s' = goal s \<and> db s' = db s"
proof (induction p start s rule: bridgePoll.induct)
  case (1 p start s)
  show ?case
  proof (cases "clock s - start < MAX_BRIDGE_WAIT_TIME_MS")
    case False
    with "1.prems" show ?thesis
      by (simp add: bridgePoll.simps)
  next
    case True
    obtain r1 s1 where a: "sendMessage balanceQuery s = (r1, s1)"
      by (cases "sendMessage balanceQuery s")
    show ?thesis
    proof (cases r1)
      case (Inl e)
      with "1.prems" True a show ?thesis
        by (simp add: bridgePoll.simps)
    next
      case (Inr resp)
      have f1: "hasBalance s1 = hasBalance s \<and> goal s1 = goal s \<and> db s1 = db s"
        using a
        by (auto simp: sendMessage_def monad_defs split: list.splits ext.splits)
      obtain r2 s2 where b: "extractTokenAmounts resp s1 = (r2, s2)"
        by (cases "extractTokenAmounts resp s1")
      have f2: "hasBalance s2 = hasBalance s1 \<and> goal s2 = goal s1 \<and> db s2 = db s1"
        using b
        by (auto simp: extractTokenAmounts_def generateAmounts_def monad_defs
            split: list.splits ext.splits if_splits)
      show ?thesis
      proof (cases r2)
        case (Inl e)
        with "1.prems" True a Inr b show ?thesis
          by (simp add: bridgePoll.simps)
      next
        case amt: (Inr usdcAmount)
        show ?thesis
        proof (cases "case usdcAmount of None \<Rightarrow> False | Some a \<Rightarrow> p a")
          case True
          with "1.prems" \<open>clock s - start < MAX_BRIDGE_WAIT_TIME_MS\<close> a Inr b amt show ?thesis
            by (simp add: bridgePoll.simps split: prod.splits sum.splits)
        next
          case False
          let ?s3 = "(setTimeout (checkInterval s2) s2)\<lparr>checkInterval := min (checkInterval s2 * 2) 60000\<rparr>"
          from "1.prems" \<open>clock s - start < MAX_BRIDGE_WAIT_TIME_MS\<close> a Inr b amt False
          have run: "bridgePoll p start ?s3 = (Inr None, s')"
            by (simp add: bridgePoll.simps)
          from "1.IH" [OF \<open>clock s - start < MAX_BRIDGE_WAIT_TIME_MS\<close> a [symmetric] Inr
                 b [symmetric] amt False run]
          show ?thesis
            using f1 f2 by (simp add: setTimeout_def)
        qed
      qed
    qed
  qed
qed

lemma markAborted_done:
  assumes "find_first (\<lambda>obj. oid obj = objectiveId) (objectives (goal s)) = Some objective"
      and "tape s = (d, XDone) # rest"
  shows "\<exists>s'. markAborted objectiveId s = (Inr (), s') \<and>
           objectives (goal s') =
             update_first (\<lambda>obj. oid obj = objectiveId) (\<lambda>obj. obj\<lparr>ostatus := Some ABORTED\<rparr>)
               (objectives (goal s)) \<and>
           sent s' = sent s \<and> sleeps s' = sleeps s \<and> tape s' = rest"
  using assms
  by (auto simp: markAborted_def updateGoal_def monad_defs Let_def)

lemma retry_three_failures:
  assumes a1: "operation s = (Inl e1, s1)"
      and a2: "operation (setTimeout 1000 s1) = (Inl e2, s2)"
      and a3: "operation (setTimeout 2000 s2) = (Inl e3, s3)"
  shows "Base_retryWithBackoff operation s = (Inr None, setTimeout 4000 s3)"
proof -
  have r3: "retryWithBackoff operation \<lparr>maxRetries = 3, currentAttempt = Suc (Suc (Suc 0))\<rparr> None
              (setTimeout 4000 s3) = (Inr None, setTimeout 4000 s3)"
    by (rule retry_exhausted) simp
  have r2: "retryWithBackoff operation \<lparr>maxRetries = 3, currentAttempt = Suc (Suc 0)\<rparr> None
              (setTimeout 2000 s2) = (Inr None, setTimeout 4000 s3)"
    using retry_failure [of "\<lparr>maxRetries = 3, currentAttempt = Suc (Suc 0)\<rparr>" operation
        "setTimeout 2000 s2" e3 s3 None] a3 r3
    by (simp add: RETRY_DELAY_MS_def)
  have r1: "retryWithBackoff operation \<lparr>maxRetries = 3, currentAttempt = Suc 0\<rparr> None
              (setTimeout 1000 s1) = (Inr None, setTimeout 4000 s3)"
    using retry_failure [of "\<lparr>maxRetries = 3, currentAttempt = Suc 0\<rparr>" operation
        "setTimeout 1000 s1" e2 s2 None] a2 r2
    by (simp add: RETRY_DELAY_MS_def)
  show ?thesis
    using retry_failure [of "\<lparr>maxRetries = 3, currentAttempt = 0\<rparr>" operation s e1 s1 None] a1 r1
    by (simp add: RETRY_DELAY_MS_def Base_retryWithBackoff_def MAX_RETRIES_def)
qed

lemma bridgeOperation_late:
  assumes "\<not> clock s - start < MAX_BRIDGE_WAIT_TIME_MS" and "\<not> hasBalance s"
  shows "bridgeOperation p start s = (Inl (Error ''Bridge confirmation timed out''), s)"
  using assms by (simp add: bridgeOperation_def bridgePoll.simps)

lemma bridge_confirmed_on_fourth_query:
  assumes tape: "tape s = (l1, XReplies r1) # (l2, x1) # (l3, XReplies r2) # (l4, x2) #
                   (l5, XReplies r3) # (l6, x3) # (l7, XReplies r4) # (l8, XAmounts t a) #
                   (l9, XDone) # rest"
      and none: "no_balance p x1" "no_balance p x2" "no_balance p x3"
      and pos: "clean_amount t \<noteq> []" "p (clean_amount t)"
      and time: "l1 + l2 + l3 + l4 + l5 + l6 + 70000 < MAX_BRIDGE_WAIT_TIME_MS"
      and obj: "find_first (\<lambda>obj. oid obj = ''wait-for-chain-b-confirmation'') (objectives (goal s))
                  = Some objective"
  shows "\<exists>s'. MultiChain_handleBridgeConfirmation p s = (Inr (), s') \<and>
           getObjectiveStatus (goal s') ''wait-for-chain-b-confirmation'' = COMPLETED \<and>
           sleeps s' = sleeps s @ [10000, 20000, 40000] \<and>
           sent s' = sent s @ [balanceQuery, balanceQuery, balanceQuery, balanceQuery] \<and>
           checkInterval s' = 60000 \<and> tape s' = rest"
proof -
  let ?W = "''wait-for-chain-b-confirmation''"
  let ?q = balanceQuery
  let ?t1 = "(l3, XReplies r2) # (l4, x2) # (l5, XReplies r3) # (l6, x3) # (l7, XReplies r4) #
             (l8, XAmounts t a) # (l9, XDone) # rest"
  let ?t2 = "(l5, XReplies r3) # (l6, x3) # (l7, XReplies r4) # (l8, XAmounts t a) #
             (l9, XDone) # rest"
  let ?t3 = "(l7, XReplies r4) # (l8, XAmounts t a) # (l9, XDone) # rest"
  define s0 where "s0 = s\<lparr>checkInterval := BRIDGE_INITIAL_CHECK_INTERVAL_MS, hasBalance := False\<rparr>"
  define s1 where "s1 = s0\<lparr>sent := sent s0 @ [?q], tape := ?t1,
                clock := clock s0 + l1 + l2 + checkInterval s0,
                sleeps := sleeps s0 @ [checkInterval s0],
                checkInterval := min (checkInterval s0 * 2) 60000\<rparr>"
  define s2 where "s2 = s1\<lparr>sent := sent s1 @ [?q], tape := ?t2,
                clock := clock s1 + l3 + l4 + checkInterval s1,
                sleeps := sleeps s1 @ [checkInterval s1],
                checkInterval := min (checkInterval s1 * 2) 60000\<rparr>"
  define s3 where "s3 = s2\<lparr>sent := sent s2 @ [?q], tape := ?t3,
                clock := clock s2 + l5 + l6 + checkInterval s2,
                sleeps := sleeps s2 @ [checkInterval s2],
                checkInterval := min (checkInterval s2 * 2) 60000\<rparr>"
  define s4 where "s4 = s3\<lparr>sent := sent s3 @ [?q], tape := rest, clock := clock s3 + l7 + l8 + l9,
               hasBalance := True, goal := completed_goal ?W (goal s3),
               db := map (\<lambda>g'. if gid g' = gid (goal s3) then completed_goal ?W (goal s3) else g')
                       (db s3)\<rparr>"
  note defs = s0_def s1_def s2_def s3_def MAX_BRIDGE_WAIT_TIME_MS_def
    BRIDGE_INITIAL_CHECK_INTERVAL_MS_def
  have e1: "bridgePoll p (clock s) s0 = bridgePoll p (clock s) s1"
    unfolding s1_def
    by (rule bridgePoll_round_empty [where l = l1 and r = r1 and l' = l2 and x = x1])
       (use tape none in \<open>simp_all add: defs\<close>)
  have e2: "bridgePoll p (clock s) s1 = bridgePoll p (clock s) s2"
    unfolding s2_def
    by (rule bridgePoll_round_empty [where l = l3 and r = r2 and l' = l4 and x = x2])
       (use none time in \<open>simp_all add: defs\<close>)
  have e3: "bridgePoll p (clock s) s2 = bridgePoll p (clock s) s3"
    unfolding s3_def
    by (rule bridgePoll_round_empty [where l = l5 and r = r3 and l' = l6 and x = x3])
       (use none time in \<open>simp_all add: defs\<close>)
  have o3: "find_first (\<lambda>obj. oid obj = ?W) (objectives (goal s3)) \<noteq> None"
    using obj by (simp add: defs)
  have t3: "tape s3 = (l7, XReplies r4) # (l8, XAmounts t a) # (l9, XDone) # rest"
    by (simp add: defs)
  have c3: "clock s3 - clock s < MAX_BRIDGE_WAIT_TIME_MS"
    using time by (simp add: defs)
  have e4: "bridgePoll p (clock s) s3 = (Inr (Some True), s4)"
    unfolding s4_def
    by (rule bridgePoll_round_balance [where s = s3 and p = p, OF c3 t3 pos o3])
  have op: "bridgeOperation p (clock s) s0 = (Inr True, s4)"
    unfolding bridgeOperation_def e1 e2 e3 e4 by simp
  have "Base_retryWithBackoff (bridgeOperation p (clock s)) s0 = (Inr (Some True), s4)"
    unfolding Base_retryWithBackoff_def
    by (rule retry_success [where operation = "bridgeOperation p (clock s)" and s = s0, OF _ op])
       (simp add: MAX_RETRIES_def)
  then have run: "MultiChain_handleBridgeConfirmation p s = (Inr (), s4)"
    by (simp add: MultiChain_handleBridgeConfirmation_def andThen_def abortUnless_def
        falsy_result_def ret_def s0_def)
  have "find_first (\<lambda>obj. oid obj = ?W)
          (update_first (\<lambda>obj. oid obj = ?W) (\<lambda>obj. obj\<lparr>completed := True\<rparr>) (objectives (goal s)))
        = Some (objective\<lparr>completed := True\<rparr>)"
    by (rule find_first_update_first [OF obj]) simp
  then have st: "getObjectiveStatus (goal s4) ?W = COMPLETED"
    by (simp add: getObjectiveStatus_def completed_goal_def s4_def defs)
  have "sleeps s4 = sleeps s @ [10000, 20000, 40000]"
    and "sent s4 = sent s @ [?q, ?q, ?q, ?q]"
    and "checkInterval s4 = 60000" and "tape s4 = rest"
    by (simp_all add: s4_def defs)
  with run st show ?thesis
    by simp
qed

lemma bridge_timed_out:
  assumes poll: "bridgePoll p (clock s)
                   (s\<lparr>checkInterval := BRIDGE_INITIAL_CHECK_INTERVAL_MS, hasBalance := False\<rparr>)
                 = (Inr None, s1)"
      and tape: "tape s1 = (d, XDone) # rest"
      and obj: "find_first (\<lambda>obj. oid obj = ''wait-for-chain-b-confirmation'') (objectives (goal s))
                  = Some objective"
      and pend: "\<not> completed objective"
  shows "MAX_BRIDGE_WAIT_TIME_MS \<le> clock s1 - clock s \<and>
         bridgeOperation p (clock s)
           (s\<lparr>checkInterval := BRIDGE_INITIAL_CHECK_INTERVAL_MS, hasBalance := False\<rparr>)
           = (Inl (Error ''Bridge confirmation timed out''), s1) \<and>
         (\<exists>s'. MultiChain_handleBridgeConfirmation p s = (Inr (), s') \<and>
            getObjectiveStatus (goal s') ''wait-for-chain-b-confirmation'' = ABORTED \<and>
            sent s' = sent s1 \<and> sleeps s' = sleeps s1 @ [1000, 2000, 4000] \<and> tape s' = rest)"
proof -
  let ?W = "''wait-for-chain-b-confirmation''"
  let ?s0 = "s\<lparr>checkInterval := BRIDGE_INITIAL_CHECK_INTERVAL_MS, hasBalance := False\<rparr>"
  let ?op = "bridgeOperation p (clock s)"
  let ?e = "Error ''Bridge confirmation timed out''"
  from bridgePoll_timed_out [OF poll]
  have late: "\<not> clock s1 - clock s < MAX_BRIDGE_WAIT_TIME_MS" and nb: "\<not> hasBalance s1"
    and g1: "goal s1 = goal s"
    by simp_all
  have a1: "?op ?s0 = (Inl ?e, s1)"
    using poll nb by (simp add: bridgeOperation_def)
  have a2: "?op (setTimeout 1000 s1) = (Inl ?e, setTimeout 1000 s1)"
    by (rule bridgeOperation_late) (use late nb in \<open>simp_all add: setTimeout_def\<close>)
  have a3: "?op (setTimeout 2000 (setTimeout 1000 s1)) = (Inl ?e, setTimeout 2000 (setTimeout 1000 s1))"
    by (rule bridgeOperation_late) (use late nb in \<open>simp_all add: setTimeout_def\<close>)
  let ?s3 = "setTimeout 4000 (setTimeout 2000 (setTimeout 1000 s1))"
  have r: "Base_retryWithBackoff ?op ?s0 = (Inr None, ?s3)"
    by (rule retry_three_failures [OF a1 a2 a3])
  have run: "MultiChain_handleBridgeConfirmation p s = markAborted ?W ?s3"
    using r
    by (simp add: MultiChain_handleBridgeConfirmation_def andThen_def abortUnless_def
        falsy_result_def)
  have o3: "find_first (\<lambda>obj. oid obj = ?W) (objectives (goal ?s3)) = Some objective"
    using obj g1 by (simp add: setTimeout_def)
  have t3: "tape ?s3 = (d, XDone) # rest"
    using tape by (simp add: setTimeout_def)
  from markAborted_done [OF o3 t3]
  obtain s' where m: "markAborted ?W ?s3 = (Inr (), s')"
    and os: "objectives (goal s') =
               update_first (\<lambda>obj. oid obj = ?W) (\<lambda>obj. obj\<lparr>ostatus := Some ABORTED\<rparr>)
                 (objectives (goal ?s3))"
    and rest: "sent s' = sent ?s3" "sleeps s' = sleeps ?s3" "tape s' = rest"
    by (elim exE conjE)
  have "find_first (\<lambda>obj. oid obj = ?W) (objectives (goal s'))
          = Some (objective\<lparr>ostatus := Some ABORTED\<rparr>)"
    unfolding os by (rule find_first_update_first [OF o3]) simp
  then have st: "getObjectiveStatus (goal s') ?W = ABORTED"
    using pend by (simp add: getObjectiveStatus_def)
  have "MAX_BRIDGE_WAIT_TIME_MS \<le> clock s1 - clock s"
    using late by simp
  then show ?thesis
    using a1 run m st rest by (simp add: setTimeout_def)
qed

text \<open>
  C6.  The wait for the bridged balance, for an objective \<^verbatim>\<open>wait-for-chain-b-confirmation\<close>
  that is still open.  When the first three readings of the balance are not above zero
  and the fourth is, the fourth round starting within the 40 minutes, the step completes
  the objective on the fourth query, having slept 10, 20 and 40 seconds between the
  queries; the interval a further round would have slept is 60 seconds, the cap, not 80.
  When the loop runs past the 40 minutes without a reading above zero, the closure throws
  \<^verbatim>\<open>Bridge confirmation timed out\<close>; the two further attempts of the retry fail at
  once without asking again (the start time is not reset), and the objective ends
  \<^verbatim>\<open>ABORTED\<close>.
\<close>

theorem handleBridgeConfirmation_waits:
  assumes obj: "find_first (\<lambda>obj. oid obj = ''wait-for-chain-b-confirmation'') (objectives (goal s))
                  = Some objective"
      and pend: "\<not> completed objective"
  shows "(tape s = (l1, XReplies r1) # (l2, x1) # (l3, XReplies r2) # (l4, x2) #
                   (l5, XReplies r3) # (l6, x3) # (l7, XReplies r4) # (l8, XAmounts t a) #
                   (l9, XDone) # rest \<and>
          no_balance parseFloat_positive x1 \<and> no_balance parseFloat_positive x2 \<and>
          no_balance parseFloat_positive x3 \<and>
          clean_amount t \<noteq> [] \<and> parseFloat_positive (clean_amount t) \<and>
          l1 + l2 + l3 + l4 + l5 + l6 + 70000 < MAX_BRIDGE_WAIT_TIME_MS \<longrightarrow>
          (\<exists>s'. MultiChain_handleBridgeConfirmation parseFloat_positive s = (Inr (), s') \<and>
             getObjectiveStatus (goal s') ''wait-for-chain-b-confirmation'' = COMPLETED \<and>
             sleeps s' = sleeps s @ [10000, 20000, 40000] \<and>
             sent s' = sent s @ [balanceQuery, balanceQuery, balanceQuery, balanceQuery] \<and>
             checkInterval s' = 60000 \<and> tape s' = rest)) \<and>
         (bridgePoll parseFloat_positive (clock s)
            (s\<lparr>checkInterval := BRIDGE_INITIAL_CHECK_INTERVAL_MS, hasBalance := False\<rparr>)
            = (Inr None, s1) \<and>
          tape s1 = (d, XDone) # rest' \<longrightarrow>
          MAX_BRIDGE_WAIT_TIME_MS \<le> clock s1 - clock s \<and>
          bridgeOperation parseFloat_positive (clock s)
            (s\<lparr>checkInterval := BRIDGE_INITIAL_CHECK_INTERVAL_MS, hasBalance := False\<rparr>)
            = (Inl (Error ''Bridge confirmation timed out''), s1) \<and>
          (\<exists>s'. MultiChain_handleBridgeConfirmation parseFloat_positive s = (Inr (), s') \<and>
             getObjectiveStatus (goal s') ''wait-for-chain-b-confirmation'' = ABORTED \<and>
             sent s' = sent s1 \<and> sleeps s' = sleeps s1 @ [1000, 2000, 4000] \<and> tape s' = rest'))"
proof (intro conjI impI)
  assume h: "tape s = (l1, XReplies r1) # (l2, x1) # (l3, XReplies r2) # (l4, x2) #
                   (l5, XReplies r3) # (l6, x3) # (l7, XReplies r4) # (l8, XAmounts t a) #
                   (l9, XDone) # rest \<and>
          no_balance parseFloat_positive x1 \<and> no_balance parseFloat_positive x2 \<and>
          no_balance parseFloat_positive x3 \<and>
          clean_amount t \<noteq> [] \<and> parseFloat_positive (clean_amount t) \<and>
          l1 + l2 + l3 + l4 + l5 + l6 + 70000 < MAX_BRIDGE_WAIT_TIME_MS"
  then have tape: "tape s = (l1, XReplies r1) # (l2, x1) # (l3, XReplies r2) # (l4, x2) #
                   (l5, XReplies r3) # (l6, x3) # (l7, XReplies r4) # (l8, XAmounts t a) #
                   (l9, XDone) # rest"
    and none: "no_balance parseFloat_positive x1" "no_balance parseFloat_positive x2"
      "no_balance parseFloat_positive x3"
    and pos: "clean_amount t \<noteq> []" "parseFloat_positive (clean_amount t)"
    and time: "l1 + l2 + l3 + l4 + l5 + l6 + 70000 < MAX_BRIDGE_WAIT_TIME_MS"
    by simp_all
  show "\<exists>s'. MultiChain_handleBridgeConfirmation parseFloat_positive s = (Inr (), s') \<and>
             getObjectiveStatus (goal s') ''wait-for-chain-b-confirmation'' = COMPLETED \<and>
             sleeps s' = sleeps s @ [10000, 20000, 40000] \<and>
             sent s' = sent s @ [balanceQuery, balanceQuery, balanceQuery, balanceQuery] \<and>
             checkInterval s' = 60000 \<and> tape s' = rest"
    by (rule bridge_confirmed_on_fourth_query [OF tape none pos time obj])
next
  assume h: "bridgePoll parseFloat_positive (clock s)
            (s\<lparr>checkInterval := BRIDGE_INITIAL_CHECK_INTERVAL_MS, hasBalance := False\<rparr>)
            = (Inr None, s1) \<and>
          tape s1 = (d, XDone) # rest'"
  then have poll: "bridgePoll parseFloat_positive (clock s)
            (s\<lparr>checkInterval := BRIDGE_INITIAL_CHECK_INTERVAL_MS, hasBalance := False\<rparr>)
            = (Inr None, s1)"
    and tape: "tape s1 = (d, XDone) # rest'"
    by simp_all
  from bridge_timed_out [OF poll tape obj pend]
  show "MAX_BRIDGE_WAIT_TIME_MS \<le> clock s1 - clock s"
    and "bridgeOperation parseFloat_positive (clock s)
            (s\<lparr>checkInterval := BRIDGE_INITIAL_CHECK_INTERVAL_MS, hasBalance := False\<rparr>)
            = (Inl (Error ''Bridge confirmation timed out''), s1)"
    and "\<exists>s'. MultiChain_handleBridgeConfirmation parseFloat_positive s = (Inr (), s') \<and>
             getObjectiveStatus (goal s') ''wait-for-chain-b-confirmation'' = ABORTED \<and>
             sent s' = sent s1 \<and> sleeps s' = sleeps s1 @ [1000, 2000, 4000] \<and> tape s' = rest'"
    by simp_all
qed

theorem handleBridgeConfirmation_waits_witness:
  "(\<exists>s'. MultiChain_handleBridgeConfirmation positive_decimal bridge_state = (Inr (), s') \<and>
      getObjectiveStatus (goal s') ''wait-for-chain-b-confirmation'' = COMPLETED \<and>
      sleeps s' = [10000, 20000, 40000] \<and>
      sent s' = [balanceQuery, balanceQuery, balanceQuery, balanceQuery] \<and>
      checkInterval s' = 60000 \<and> tape s' = []) \<and>
   (\<exists>s'. MultiChain_handleBridgeConfirmation positive_decimal stalled_bridge_state = (Inr (), s') \<and>
      getObjectiveStatus (goal s') ''wait-for-chain-b-confirmation'' = ABORTED \<and>
      sent s' = [balanceQuery] \<and> sleeps s' = [10000, 1000, 2000, 4000] \<and> tape s' = [])"
proof -
  let ?W = "''wait-for-chain-b-confirmation''"
  have o1: "find_first (\<lambda>obj. oid obj = ?W) (objectives (goal bridge_state))
              = Some (mk_objective ?W False)"
    by (simp add: bridge_state_def bridge_goal_def mk_objective_def)
  have o2: "find_first (\<lambda>obj. oid obj = ?W) (objectives (goal stalled_bridge_state))
              = Some (mk_objective ?W False)"
    by (simp add: stalled_bridge_state_def bridge_goal_def mk_objective_def)
  have p: "\<not> completed (mk_objective ?W False)"
    by (simp add: mk_objective_def)
  have run: "tape bridge_state =
               (300, XReplies []) # (200, XAmounts ''0'' ''0'') #
               (300, XReplies []) # (200, XAmounts ''0.00'' ''0'') #
               (300, XReplies []) # (200, XReject (Error ''model overloaded'')) #
               (300, XReplies []) # (200, XAmounts ''25.5 USDC'' ''0'') # (50, XDone) # [] \<and>
             no_balance positive_decimal (XAmounts ''0'' ''0'') \<and>
             no_balance positive_decimal (XAmounts ''0.00'' ''0'') \<and>
             no_balance positive_decimal (XReject (Error ''model overloaded'')) \<and>
             clean_amount ''25.5 USDC'' \<noteq> [] \<and> positive_decimal (clean_amount ''25.5 USDC'') \<and>
             300 + 200 + 300 + 200 + 300 + 200 + 70000 < MAX_BRIDGE_WAIT_TIME_MS"
    by (simp add: bridge_state_def no_balance_def positive_decimal_def clean_amount_def
        MAX_BRIDGE_WAIT_TIME_MS_def)
  define s0 where "s0 = stalled_bridge_state\<lparr>checkInterval := BRIDGE_INITIAL_CHECK_INTERVAL_MS,
                          hasBalance := False\<rparr>"
  define s1 where "s1 = s0\<lparr>sent := sent s0 @ [balanceQuery], tape := [(50, XDone)],
                clock := clock s0 + 2400000 + 200 + checkInterval s0,
                sleeps := sleeps s0 @ [checkInterval s0],
                checkInterval := min (checkInterval s0 * 2) 60000\<rparr>"
  have "bridgePoll positive_decimal (clock stalled_bridge_state) s0
          = bridgePoll positive_decimal (clock stalled_bridge_state) s1"
    unfolding s1_def
    by (rule bridgePoll_round_empty [where x = "XAmounts ''0'' ''0''" and r = "[]"])
       (simp_all add: s0_def stalled_bridge_state_def idle_def MAX_BRIDGE_WAIT_TIME_MS_def
          no_balance_def positive_decimal_def clean_amount_def)
  also have "\<dots> = (Inr None, s1)"
    by (subst bridgePoll.simps)
       (simp add: s1_def s0_def stalled_bridge_state_def idle_def MAX_BRIDGE_WAIT_TIME_MS_def)
  finally have stall: "bridgePoll positive_decimal (clock stalled_bridge_state)
                   (stalled_bridge_state\<lparr>checkInterval := BRIDGE_INITIAL_CHECK_INTERVAL_MS,
                          hasBalance := False\<rparr>) = (Inr None, s1) \<and>
                 tape s1 = (50, XDone) # []"
    by (simp add: s0_def s1_def)
  have f1: "sleeps bridge_state = []" "sent bridge_state = []"
    by (simp_all add: bridge_state_def idle_def)
  have f2: "sent s1 = [balanceQuery]" "sleeps s1 = [10000]"
    by (simp_all add: s1_def s0_def stalled_bridge_state_def idle_def
        BRIDGE_INITIAL_CHECK_INTERVAL_MS_def)
  from handleBridgeConfirmation_waits [OF o1 p, of 300 "[]" 200 "XAmounts ''0'' ''0''"
      300 "[]" 200 "XAmounts ''0.00'' ''0''" 300 "[]" 200 "XReject (Error ''model overloaded'')"
      300 "[]" 200 "''25.5 USDC''" "''0''" 50 "[]" positive_decimal] run f1
  have a: "\<exists>s'. MultiChain_handleBridgeConfirmation positive_decimal bridge_state = (Inr (), s') \<and>
      getObjectiveStatus (goal s') ?W = COMPLETED \<and>
      sleeps s' = [10000, 20000, 40000] \<and>
      sent s' = [balanceQuery, balanceQuery, balanceQuery, balanceQuery] \<and>
      checkInterval s' = 60000 \<and> tape s' = []"
    by simp
  from handleBridgeConfirmation_waits [OF o2 p, where parseFloat_positive = positive_decimal
      and ?s1.0 = s1 and d = 50 and rest' = "[]"] stall f2
  have b: "\<exists>s'. MultiChain_handleBridgeConfirmation positive_decimal stalled_bridge_state = (Inr (), s') \<and>
      getObjectiveStatus (goal s') ?W = ABORTED \<and>
      sent s' = [balanceQuery] \<and> sleeps s' = [10000, 1000, 2000, 4000] \<and> tape s' = []"
    by simp
  from a b show ?thesis
    by simp
qed

section \<open>Properties of the service's confirm-intent step\<close>






end
